theory Spec2Isabelle
  imports Complex_Main
begin

section \<open>Errors\<close>

text \<open>
  A Go \<open>error\<close> is an interface value: it has an identity (compared by \<open>==\<close>) and a
  message (\<open>Error()\<close>). The code compares errors only against the sentinel
  \<open>hackerservice.ErrRandomFailure\<close>, so an error is the sentinel, one of the
  admission-control sentinels of the middleware libraries, or a value made at run time
  by \<open>errors.New\<close>, which is never identical to a sentinel whatever its message.
  A nil error is \<open>None\<close>. The messages of \<open>ErrLimited\<close>, \<open>ErrOpenState\<close> and
  \<open>ErrTooManyRequests\<close> are those of the libraries that declare them.
\<close>

datatype error =
    ErrRandomFailure
  | ErrLimited
  | ErrOpenState
  | ErrTooManyRequests
  | errors_New string

fun Error :: "error \<Rightarrow> string" where
  "Error ErrRandomFailure = ''random failure''"
| "Error ErrLimited = ''rate limit exceeded''"
| "Error ErrOpenState = ''circuit breaker is open''"
| "Error ErrTooManyRequests = ''too many requests''"
| "Error (errors_New s) = s"

section \<open>The error-string codec (hackertransport)\<close>

definition str2err :: "string \<Rightarrow> error option" where
  "str2err s = (if s = [] then None else Some (errors_New s))"

definition err2str :: "error option \<Rightarrow> string" where
  "err2str err = (case err of None \<Rightarrow> [] | Some e \<Rightarrow> Error e)"

section \<open>The basic service (hackerservice)\<close>

text \<open>
  \<open>failureRate\<close> is the untyped constant \<open>0.1\<close>; the constant expression
  \<open>failureRate * 100\<close> is evaluated exactly, so it is a rational here.
\<close>

definition failureRate :: rat where
  "failureRate = 1 / 10"

text \<open>
  \<open>basicService.Ping\<close>, with the value \<open>r\<close> of \<open>rand.Int63()\<close> (a non-negative integer)
  as an argument: \<open>n := r % 100\<close>, then the comparison with \<open>failureRate * 100\<close>.
\<close>

definition basicService_Ping :: "nat \<Rightarrow> string \<times> error option" where
  "basicService_Ping r =
     (let n = r mod 100
      in if of_nat n < failureRate * 100 then ([], Some ErrRandomFailure)
         else (''pong'', None))"

section \<open>Requests, responses and endpoints (hackerendpoint)\<close>

text \<open>
  An endpoint takes and returns \<open>interface{}\<close> values. A request is a \<open>PingRequest\<close> or a
  value of some other dynamic type; a response is nil or a \<open>PingResponse\<close>, the only
  response type of the program. A call returns a response and an error, or panics.
\<close>

datatype request = PingRequest | OtherRequest

record PingResponse =
  P :: string
  Err :: "error option"

datatype 'a go = Return 'a | Panic

type_synonym outcome = "(PingResponse option \<times> error option) go"

text \<open>The error a call hands to its caller, and whether the call counts as a success.\<close>

fun returned_error :: "('a \<times> error option) go \<Rightarrow> error option" where
  "returned_error (Return r) = snd r"
| "returned_error Panic = None"

fun succeeded :: "('a \<times> error option) go \<Rightarrow> bool" where
  "succeeded (Return r) = (snd r = None)"
| "succeeded Panic = False"

text \<open>
  The context carries the trace context: the operation names of the spans that are open
  around the call.
\<close>

datatype "context" = Background | WithSpan string "context"

text \<open>
  \<open>hackerservice.Service\<close>: one method, \<open>Ping(ctx) (string, error)\<close>. What a service
  reads and changes outside its arguments (the random source) is the world \<open>'w\<close>.
\<close>

type_synonym 'w Service = "context \<Rightarrow> 'w \<Rightarrow> (string \<times> error option) \<times> 'w"

text \<open>
  The basic service reads the global random source: the world is the sequence of values
  \<open>rand.Int63()\<close> returns and the number of values drawn so far.
\<close>

record rand_source =
  Int63 :: "nat \<Rightarrow> nat"
  drawn :: nat

definition NewBasicService :: "rand_source Service" where
  "NewBasicService ctx w = (basicService_Ping (Int63 w (drawn w)), w\<lparr>drawn := Suc (drawn w)\<rparr>)"

subsection \<open>The state the middlewares keep\<close>

text \<open>Time is the clock's reading in seconds.\<close>

record bucket =
  tokens :: nat
  lastRefill :: nat

datatype State = StateClosed | StateHalfOpen | StateOpen

record breaker =
  state :: State
  ConsecutiveFailures :: nat
  expiry :: nat
  Requests :: nat

record span =
  operation :: string
  parent :: "context"
  span_error :: "error option"

record log_record =
  keyvals :: "(string \<times> string) list"
  transport_error :: "error option"

record observation =
  labels :: "(string \<times> string) list"
  seconds :: nat

record 'w server_state =
  now :: nat
  limiter :: bucket
  cb :: breaker
  spans :: "span list"
  logger :: "log_record list"
  duration :: "observation list"
  world :: 'w

subsection \<open>The rate limiter\<close>

text \<open>
  The limiter is third-party code (\<open>golang.org/x/time/rate\<close> behind go-kit's
  \<open>ratelimit.NewErroringLimiter\<close>), not part of this repository's sources. The spec: a
  token-bucket limiter with a fixed refill rate and burst capacity; its state is the
  current token count and the last-refill timestamp, mutated on every call attempt; on
  exhaustion it fails the call immediately with a rate-limit error rather than blocking.
  \<open>every\<close> is the refill interval in seconds per token (\<open>rate.Every\<close>).
\<close>

record Limiter =
  every :: nat
  burst :: nat

text \<open>Modelled from the spec: \<open>rate.NewLimiter\<close>, a limiter of the given rate and burst.\<close>

definition NewLimiter :: "nat \<Rightarrow> nat \<Rightarrow> Limiter" where
  "NewLimiter r b = \<lparr>every = r, burst = b\<rparr>"

text \<open>Modelled from the spec: the bucket of a new limiter holds \<open>burst\<close> tokens.\<close>

definition full_bucket :: "Limiter \<Rightarrow> nat \<Rightarrow> bucket" where
  "full_bucket lm t = \<lparr>tokens = burst lm, lastRefill = t\<rparr>"

text \<open>
  Modelled from the spec: the refill of the limiter's bucket, one token per \<open>every\<close>
  seconds since the last refill, up to \<open>burst\<close>.
\<close>

definition refill :: "Limiter \<Rightarrow> nat \<Rightarrow> bucket \<Rightarrow> bucket" where
  "refill lm t b =
     (if every lm = 0 then \<lparr>tokens = burst lm, lastRefill = t\<rparr>
      else let k = (t - lastRefill b) div every lm
           in \<lparr>tokens = min (burst lm) (tokens b + k), lastRefill = lastRefill b + k * every lm\<rparr>)"

text \<open>
  Modelled from the spec: \<open>Limiter.Allow\<close>, which takes a token if there is one and
  never blocks.
\<close>

definition Allow :: "Limiter \<Rightarrow> nat \<Rightarrow> bucket \<Rightarrow> bool \<times> bucket" where
  "Allow lm t b =
     (let b' = refill lm t b
      in if 0 < tokens b' then (True, b'\<lparr>tokens := tokens b' - 1\<rparr>) else (False, b'))"

subsection \<open>The circuit breaker\<close>

text \<open>
  \<open>gobreaker.Settings\<close> as this repository fills it in: a name and a timeout in seconds,
  \<open>0\<close> where the field is left out.
\<close>

record Settings =
  Name :: string
  Timeout :: nat

text \<open>
  What the breaker library fixes and this repository never sets: the number \<open>N\<close> of
  consecutive failures that opens the breaker, and the timeout used when the settings
  leave it out.
\<close>

record gobreaker_defaults =
  threshold :: nat
  defaultTimeout :: nat

record CircuitBreaker =
  name :: string
  readyToTrip :: nat
  timeout :: nat

text \<open>
  The breaker is third-party code (\<open>github.com/sony/gobreaker\<close> behind go-kit's
  \<open>circuitbreaker.Gobreaker\<close>), not part of this repository's sources. The spec: closed
  (calls pass through, failures counted), after N consecutive failures open (calls fail
  immediately without invoking the wrapped endpoint), after a timeout elapses half-open
  (exactly one trial call permitted), success returns to closed, failure returns to
  open; only one concurrent call may occupy the half-open probe, and concurrent
  competitors in half-open must fail fast. \<open>Requests\<close> counts the calls admitted while
  half-open.
\<close>

text \<open>
  Modelled from the spec: \<open>gobreaker.NewCircuitBreaker\<close>, the breaker the settings
  describe; a setting left out takes the library's value.
\<close>

definition NewCircuitBreaker :: "gobreaker_defaults \<Rightarrow> Settings \<Rightarrow> CircuitBreaker" where
  "NewCircuitBreaker lib st =
     \<lparr>name = Name st, readyToTrip = threshold lib,
      timeout = (if Timeout st = 0 then defaultTimeout lib else Timeout st)\<rparr>"

text \<open>Modelled from the spec: the breaker's three states, as it enters them.\<close>

definition closed_breaker :: breaker where
  "closed_breaker = \<lparr>state = StateClosed, ConsecutiveFailures = 0, expiry = 0, Requests = 0\<rparr>"

definition open_breaker :: "CircuitBreaker \<Rightarrow> nat \<Rightarrow> breaker" where
  "open_breaker c t =
     \<lparr>state = StateOpen, ConsecutiveFailures = 0, expiry = t + timeout c, Requests = 0\<rparr>"

definition half_open_breaker :: breaker where
  "half_open_breaker =
     \<lparr>state = StateHalfOpen, ConsecutiveFailures = 0, expiry = 0, Requests = 0\<rparr>"

text \<open>
  Modelled from the spec: the breaker's state at time \<open>t\<close>; an open breaker whose timeout
  has elapsed is half-open.
\<close>

definition currentState :: "nat \<Rightarrow> breaker \<Rightarrow> breaker" where
  "currentState t b =
     (if state b = StateOpen \<and> expiry b \<le> t then half_open_breaker else b)"

text \<open>
  Modelled from the spec: the breaker's admission of a call. Open: the call fails.
  Half-open: one call is admitted, a second one fails. Closed: the call is admitted.
\<close>

definition beforeRequest :: "nat \<Rightarrow> breaker \<Rightarrow> error option \<times> breaker" where
  "beforeRequest t b =
     (let b' = currentState t b
      in case state b' of
           StateOpen \<Rightarrow> (Some ErrOpenState, b')
         | StateHalfOpen \<Rightarrow>
             (if 1 \<le> Requests b' then (Some ErrTooManyRequests, b')
              else (None, b'\<lparr>Requests := Requests b' + 1\<rparr>))
         | StateClosed \<Rightarrow> (None, b'))"

text \<open>
  Modelled from the spec: the breaker's bookkeeping when an admitted call has returned.
  Closed: a success clears the count, a failure adds to it, and the Nth failure in a row
  opens the breaker. Half-open: a success closes it, a failure opens it.
\<close>

definition afterRequest :: "CircuitBreaker \<Rightarrow> nat \<Rightarrow> bool \<Rightarrow> breaker \<Rightarrow> breaker" where
  "afterRequest c t success b =
     (let b' = currentState t b
      in case state b' of
           StateClosed \<Rightarrow>
             (if success then b'\<lparr>ConsecutiveFailures := 0\<rparr>
              else if readyToTrip c \<le> ConsecutiveFailures b' + 1 then open_breaker c t
              else b'\<lparr>ConsecutiveFailures := ConsecutiveFailures b' + 1\<rparr>)
         | StateHalfOpen \<Rightarrow> (if success then closed_breaker else open_breaker c t)
         | StateOpen \<Rightarrow> b')"

text \<open>
  Modelled from the spec: \<open>CircuitBreaker.Execute\<close>, which runs the request \<open>req\<close> under
  the breaker: a call that is not admitted fails at once and the request is not run; a
  panic of the request counts as a failure. The request works on a state of its own
  (\<open>'a\<close>).
\<close>

definition Execute ::
  "CircuitBreaker \<Rightarrow> nat \<Rightarrow> ('a \<Rightarrow> outcome \<times> 'a) \<Rightarrow> breaker \<times> 'a \<Rightarrow>
   outcome \<times> breaker \<times> 'a" where
  "Execute c t req bs =
     (case beforeRequest t (fst bs) of
        (Some err, b') \<Rightarrow> (Return (None, Some err), b', snd bs)
      | (None, b') \<Rightarrow>
          (case req (snd bs) of
             (out, a') \<Rightarrow> (out, afterRequest c t (succeeded out) b', a')))"

subsection \<open>Endpoints and their middlewares\<close>

text \<open>
  A middleware is a function from endpoints to endpoints, and the constructors of this
  repository apply them one after another. An endpoint is therefore the closure the
  transport or the service gave (\<open>Endpoint\<close>, which works on the world only) or a
  middleware applied to an endpoint (\<open>Wrap\<close>); \<open>call\<close> runs it.
\<close>

datatype middleware =
    ErroringLimiter Limiter
  | Gobreaker CircuitBreaker
  | TraceServer string
  | TraceClient string
  | LoggingMiddleware "(string \<times> string) list"
  | InstrumentingMiddleware "(string \<times> string) list"

type_synonym 'w closure = "context \<Rightarrow> request \<Rightarrow> 'w \<Rightarrow> outcome \<times> 'w"

datatype 'w endpoint =
    Endpoint "'w closure"
  | Wrap middleware "'w endpoint"

type_synonym 'w endpoint_fn = "context \<Rightarrow> request \<Rightarrow> 'w server_state \<Rightarrow> outcome \<times> 'w server_state"

text \<open>
  Modelled from the spec: the endpoint \<open>ratelimit.NewErroringLimiter(limit)(next)\<close>; a
  call the limiter does not allow fails with \<open>ErrLimited\<close> and \<open>next\<close> is not called.
\<close>

definition limited :: "Limiter \<Rightarrow> 'w endpoint_fn \<Rightarrow> 'w endpoint_fn" where
  "limited lm next ctx request s =
     (case Allow lm (now s) (limiter s) of
        (ok, b') \<Rightarrow>
          if \<not> ok then (Return (None, Some ErrLimited), s\<lparr>limiter := b'\<rparr>)
          else next ctx request (s\<lparr>limiter := b'\<rparr>))"

text \<open>
  Modelled from the spec: the endpoint \<open>circuitbreaker.Gobreaker(cb)(next)\<close>, which
  executes \<open>next\<close> under the breaker.
\<close>

definition broken :: "CircuitBreaker \<Rightarrow> 'w endpoint_fn \<Rightarrow> 'w endpoint_fn" where
  "broken c next ctx request s =
     (case Execute c (now s) (next ctx request) (cb s, s) of
        (out, b', s') \<Rightarrow> (out, s'\<lparr>cb := b'\<rparr>))"

text \<open>
  Modelled from the spec: the endpoints \<open>opentracing.TraceServer(tracer, name)(next)\<close> and
  \<open>opentracing.TraceClient(tracer, name)(next)\<close>, third-party code that is not part of
  this repository's sources. The spec: tracing (server and client, symmetric) starts a
  span tagged with the operation name around the call, propagating trace context through
  the call's context parameter, and completes the span with the call's error, if any,
  attached as a tag.
\<close>

definition traced :: "string \<Rightarrow> 'w endpoint_fn \<Rightarrow> 'w endpoint_fn" where
  "traced operationName next ctx request s =
     (case next (WithSpan operationName ctx) request s of
        (out, s') \<Rightarrow>
          (out, s'\<lparr>spans := spans s' @
             [\<lparr>operation = operationName, parent = ctx, span_error = returned_error out\<rparr>]\<rparr>))"

text \<open>
  Modelled from the spec: \<open>hackerendpoint.LoggingMiddleware\<close>, which set.go calls and
  whose file is not among the sources. The spec: server-side composition appends
  logging and instrumentation around the entire stack, so every inbound call is logged
  and counted exactly once regardless of which inner layer rejected it. The logger
  writes one record, with the error the wrapped endpoint returned, when that endpoint
  has returned.
\<close>

definition logged :: "(string \<times> string) list \<Rightarrow> 'w endpoint_fn \<Rightarrow> 'w endpoint_fn" where
  "logged kvs next ctx request s =
     (case next ctx request s of
        (out, s') \<Rightarrow>
          (out, s'\<lparr>logger := logger s' @
             [\<lparr>keyvals = kvs, transport_error = returned_error out\<rparr>]\<rparr>))"

text \<open>
  Modelled from the spec: \<open>hackerendpoint.InstrumentingMiddleware\<close>, which set.go calls
  and whose file is not among the sources. The histogram gets one observation per call,
  the time the call took.
\<close>

definition instrumented :: "(string \<times> string) list \<Rightarrow> 'w endpoint_fn \<Rightarrow> 'w endpoint_fn" where
  "instrumented lvs next ctx request s =
     (case next ctx request s of
        (out, s') \<Rightarrow>
          (out, s'\<lparr>duration := duration s' @
             [\<lparr>labels = lvs, seconds = now s' - now s\<rparr>]\<rparr>))"

fun apply_middleware :: "middleware \<Rightarrow> 'w endpoint_fn \<Rightarrow> 'w endpoint_fn" where
  "apply_middleware (ErroringLimiter lm) next = limited lm next"
| "apply_middleware (Gobreaker c) next = broken c next"
| "apply_middleware (TraceServer operationName) next = traced operationName next"
| "apply_middleware (TraceClient operationName) next = traced operationName next"
| "apply_middleware (LoggingMiddleware kvs) next = logged kvs next"
| "apply_middleware (InstrumentingMiddleware lvs) next = instrumented lvs next"

primrec call :: "'w endpoint \<Rightarrow> 'w endpoint_fn" where
  "call (Endpoint f) =
     (\<lambda>ctx request s. case f ctx request (world s) of (out, w') \<Rightarrow> (out, s\<lparr>world := w'\<rparr>))"
| "call (Wrap m e) = apply_middleware m (call e)"

text \<open>The middlewares around the closure, innermost first.\<close>

primrec chain :: "'w endpoint \<Rightarrow> middleware list" where
  "chain (Endpoint f) = []"
| "chain (Wrap m e) = chain e @ [m]"

subsection \<open>The endpoint set (set.go)\<close>

record 'w Set =
  PingEndpoint :: "'w endpoint"

definition MakePingEndpoint :: "'w Service \<Rightarrow> 'w endpoint" where
  "MakePingEndpoint svc =
     Endpoint (\<lambda>ctx request w.
       case request of
         OtherRequest \<Rightarrow> (Panic, w)
       | PingRequest \<Rightarrow>
           (case svc ctx w of
              ((p, err), w') \<Rightarrow> (Return (Some \<lparr>P = p, Err = err\<rparr>, None), w')))"

text \<open>
  \<open>New\<close>; the logger, the histogram and the tracer it is given are the \<open>logger\<close>,
  \<open>duration\<close> and \<open>spans\<close> of the state. \<open>gobreaker.Settings{}\<close> leaves every field out.
\<close>

definition New :: "gobreaker_defaults \<Rightarrow> 'w Service \<Rightarrow> 'w Set" where
  "New lib svc =
     (let pingEndpoint = MakePingEndpoint svc;
          pingEndpoint = Wrap (ErroringLimiter (NewLimiter 1 100)) pingEndpoint;
          pingEndpoint = Wrap (Gobreaker (NewCircuitBreaker lib \<lparr>Name = [], Timeout = 0\<rparr>)) pingEndpoint;
          pingEndpoint = Wrap (TraceServer ''Ping'') pingEndpoint;
          pingEndpoint = Wrap (LoggingMiddleware [(''method'', ''Ping'')]) pingEndpoint;
          pingEndpoint = Wrap (InstrumentingMiddleware [(''method'', ''Ping'')]) pingEndpoint
      in \<lparr>PingEndpoint = pingEndpoint\<rparr>)"

text \<open>\<open>Set.Ping\<close>: the set used as a service, in a client.\<close>

definition Set_Ping ::
  "'w Set \<Rightarrow> context \<Rightarrow> 'w server_state \<Rightarrow> (string \<times> error option) go \<times> 'w server_state" where
  "Set_Ping st ctx s =
     (case call (PingEndpoint st) ctx PingRequest s of
        (Panic, s') \<Rightarrow> (Panic, s')
      | (Return (resp, Some err), s') \<Rightarrow> (Return ([], Some err), s')
      | (Return (None, None), s') \<Rightarrow> (Panic, s')
      | (Return (Some response, None), s') \<Rightarrow> (Return (P response, Err response), s'))"

text \<open>The state a fresh set starts in: a full bucket, a closed breaker, nothing recorded.\<close>

definition fresh :: "nat \<Rightarrow> 'w \<Rightarrow> 'w server_state" where
  "fresh t w =
     \<lparr>now = t, limiter = full_bucket (NewLimiter 1 100) t, cb = closed_breaker, spans = [],
      logger = [], duration = [], world = w\<rparr>"

section \<open>The Thrift transport (hackertransport)\<close>

text \<open>The generated reply struct: \<open>PingReply{Value string, Err string}\<close>.\<close>

record thrift_PingReply =
  Value :: string
  thrift_Err :: string

definition thriftServer_Ping ::
  "'w Set \<Rightarrow> context \<Rightarrow> 'w server_state \<Rightarrow>
   (thrift_PingReply option \<times> error option) go \<times> 'w server_state" where
  "thriftServer_Ping endpoints ctx s =
     (let request = PingRequest
      in case call (PingEndpoint endpoints) ctx request s of
           (Panic, s') \<Rightarrow> (Panic, s')
         | (Return (response, Some err), s') \<Rightarrow> (Return (None, Some err), s')
         | (Return (None, None), s') \<Rightarrow> (Panic, s')
         | (Return (Some resp, None), s') \<Rightarrow>
             (Return (Some \<lparr>Value = P resp, thrift_Err = err2str (Err resp)\<rparr>, None), s'))"

text \<open>
  The generated client's \<open>Ping\<close>: a remote call that gives a reply (a pointer, nil as
  \<open>None\<close>) and an error.
\<close>

type_synonym 'w HackerServiceClient =
  "context \<Rightarrow> 'w \<Rightarrow> (thrift_PingReply option \<times> error option) \<times> 'w"

definition MakeThriftPingEndpoint :: "'w HackerServiceClient \<Rightarrow> 'w endpoint" where
  "MakeThriftPingEndpoint client =
     Endpoint (\<lambda>ctx request w.
       case request of
         OtherRequest \<Rightarrow> (Panic, w)
       | PingRequest \<Rightarrow>
           (case client ctx w of
              ((reply, err), w') \<Rightarrow>
                if err = Some ErrRandomFailure then (Return (None, err), w')
                else (case reply of
                        None \<Rightarrow> (Panic, w')
                      | Some r \<Rightarrow> (Return (Some \<lparr>P = Value r, Err = err\<rparr>, None), w'))))"

definition NewThriftClient :: "gobreaker_defaults \<Rightarrow> 'w HackerServiceClient \<Rightarrow> 'w Set" where
  "NewThriftClient lib client =
     (let limiter = ErroringLimiter (NewLimiter 1 100);
          pingEndpoint = MakeThriftPingEndpoint client;
          pingEndpoint = Wrap limiter pingEndpoint;
          pingEndpoint = Wrap (Gobreaker (NewCircuitBreaker lib \<lparr>Name = ''Ping'', Timeout = 10\<rparr>)) pingEndpoint
      in \<lparr>PingEndpoint = pingEndpoint\<rparr>)"

section \<open>The gRPC transport (hackertransport)\<close>

text \<open>
  \<open>pb.PingReply{P string, Err string}\<close>; \<open>pb.PingRequest{}\<close> has no field. A wire value
  reaches a codec function as \<open>interface{}\<close>: \<open>None\<close> is a value on which the type
  assertion or the dereference panics.
\<close>

record pb_PingReply =
  pb_P :: string
  pb_Err :: string

definition decodeGRPCPingRequest :: "unit option \<Rightarrow> (request \<times> error option) go" where
  "decodeGRPCPingRequest grpcReq =
     (case grpcReq of None \<Rightarrow> Panic | Some req \<Rightarrow> Return (PingRequest, None))"

definition decodeGRPCPingResponse :: "pb_PingReply option \<Rightarrow> outcome" where
  "decodeGRPCPingResponse grpcReply =
     (case grpcReply of
        None \<Rightarrow> Panic
      | Some reply \<Rightarrow> Return (Some \<lparr>P = pb_P reply, Err = str2err (pb_Err reply)\<rparr>, None))"

definition encodeGRPCPingResponse ::
  "PingResponse option \<Rightarrow> (pb_PingReply \<times> error option) go" where
  "encodeGRPCPingResponse response =
     (case response of
        None \<Rightarrow> Panic
      | Some resp \<Rightarrow> Return (\<lparr>pb_P = P resp, pb_Err = err2str (Err resp)\<rparr>, None))"

definition encodeGRPCPingRequest :: "request \<Rightarrow> (unit \<times> error option) go" where
  "encodeGRPCPingRequest request =
     (case request of OtherRequest \<Rightarrow> Panic | PingRequest \<Rightarrow> Return ((), None))"

text \<open>
  \<open>grpctransport.NewClient(conn, service, method, enc, dec, ...).Endpoint()\<close> is the
  transport library's; \<open>NewGRPCClient\<close> takes it as the parameter \<open>NewClient\<close> and gives it
  the codec functions of this repository.
\<close>

definition NewGRPCClient ::
  "gobreaker_defaults \<Rightarrow>
   (string \<Rightarrow> string \<Rightarrow> (request \<Rightarrow> (unit \<times> error option) go) \<Rightarrow>
      (pb_PingReply option \<Rightarrow> outcome) \<Rightarrow> 'w closure) \<Rightarrow> 'w Set" where
  "NewGRPCClient lib NewClient =
     (let limiter = ErroringLimiter (NewLimiter 1 100);
          pingEndpoint = Endpoint (NewClient ''pb.Hacker'' ''Ping'' encodeGRPCPingRequest decodeGRPCPingResponse);
          pingEndpoint = Wrap (TraceClient ''Ping'') pingEndpoint;
          pingEndpoint = Wrap limiter pingEndpoint;
          pingEndpoint = Wrap (Gobreaker (NewCircuitBreaker lib \<lparr>Name = ''Ping'', Timeout = 30\<rparr>)) pingEndpoint
      in \<lparr>PingEndpoint = pingEndpoint\<rparr>)"

section \<open>The HTTP transport (hackertransport)\<close>

text \<open>
  JSON documents as values; \<open>encoding/json\<close> turns them into text and back. What is
  written to a \<open>http.ResponseWriter\<close> is the list of the calls made on it.
\<close>

datatype json = JNull | JString string | JObject "(string \<times> json) list"

datatype rw_call =
    WriteHeader nat
  | HeaderSet string string
  | Encode json

type_synonym ResponseWriter = "rw_call list"

definition StatusOK :: nat where "StatusOK = 200"
definition StatusTeapot :: nat where "StatusTeapot = 418"
definition StatusInternalServerError :: nat where "StatusInternalServerError = 500"

record errorWrapper =
  Error_field :: string

definition json_errorWrapper :: "errorWrapper \<Rightarrow> json" where
  "json_errorWrapper w = JObject [(''error'', JString (Error_field w))]"

text \<open>\<open>PingResponse\<close> as JSON: the field \<open>Err\<close> is tagged \<open>json:"-"\<close> and left out.\<close>

definition json_PingResponse :: "PingResponse \<Rightarrow> json" where
  "json_PingResponse r = JObject [(''p'', JString (P r))]"

definition err2code :: "error option \<Rightarrow> nat" where
  "err2code err =
     (case err of
        Some ErrRandomFailure \<Rightarrow> StatusTeapot
      | _ \<Rightarrow> StatusInternalServerError)"

text \<open>
  \<open>errorEncoder\<close>: the header is written first; \<open>err.Error()\<close> on a nil error panics.
  Errors of writing to the connection are left out.
\<close>

definition errorEncoder :: "error option \<Rightarrow> ResponseWriter \<Rightarrow> ResponseWriter go" where
  "errorEncoder err rw =
     (let rw = rw @ [WriteHeader (err2code err)]
      in case err of
           None \<Rightarrow> Panic
         | Some e \<Rightarrow> Return (rw @ [Encode (json_errorWrapper \<lparr>Error_field = Error e\<rparr>)]))"

definition encodeHTTPGenericResponse ::
  "PingResponse option \<Rightarrow> ResponseWriter \<Rightarrow> (ResponseWriter \<times> error option) go" where
  "encodeHTTPGenericResponse response rw =
     (case response of
        Some f \<Rightarrow>
          (if Err f \<noteq> None then
             (case errorEncoder (Err f) rw of
                Panic \<Rightarrow> Panic
              | Return rw' \<Rightarrow> Return (rw', None))
           else Return (rw @ [HeaderSet ''Content-Type'' ''application/json; charset=utf-8'',
                              Encode (json_PingResponse f)], None))
      | None \<Rightarrow>
          Return (rw @ [HeaderSet ''Content-Type'' ''application/json; charset=utf-8'',
                        Encode JNull], None))"

text \<open>
  A \<open>http.Response\<close> as the client gets it: the status code, the status line's text
  (\<open>Status\<close>, such as \<open>418 I'm a teapot\<close>) and the body, which is read from the front.
  \<open>json.NewDecoder(r.Body).Decode\<close> is the standard library's: it is the parameter
  \<open>Decode\<close>, which reads a body and gives the decoded value, an error and the part of the
  body it left unread.
\<close>

record http_Response =
  StatusCode :: nat
  Status :: string
  Body :: string

type_synonym 'a Decoder = "string \<Rightarrow> ('a \<times> error option) \<times> string"

text \<open>
  \<open>decodeHTTPPingResponse\<close>, with the body left unread as a second result. \<open>Decode\<close> fills
  in the field \<open>p\<close> of a zero \<open>PingResponse\<close>; \<open>Err\<close> stays nil (\<open>json:"-"\<close>).
\<close>

definition decodeHTTPPingResponse ::
  "string Decoder \<Rightarrow> http_Response \<Rightarrow> (PingResponse option \<times> error option) \<times> string" where
  "decodeHTTPPingResponse Decode r =
     (if StatusCode r \<noteq> StatusOK then ((None, Some (errors_New (Status r))), Body r)
      else case Decode (Body r) of
             ((p, err), rest) \<Rightarrow> ((Some \<lparr>P = p, Err = None\<rparr>, err), rest))"

text \<open>\<open>errorDecoder\<close>: reads the body as an \<open>errorWrapper\<close>. No function calls it.\<close>

definition errorDecoder :: "errorWrapper Decoder \<Rightarrow> http_Response \<Rightarrow> error option \<times> string" where
  "errorDecoder Decode req =
     (case Decode (Body req) of
        ((w, Some err), rest) \<Rightarrow> (Some err, rest)
      | ((w, None), rest) \<Rightarrow> (Some (errors_New (Error_field w)), rest))"

text \<open>\<open>decodeHTTPPingRequest\<close>: the request body decoded into a \<open>PingRequest\<close>.\<close>

definition decodeHTTPPingRequest :: "unit Decoder \<Rightarrow> string \<Rightarrow> request \<times> error option" where
  "decodeHTTPPingRequest Decode body = (case Decode body of ((u, err), rest) \<Rightarrow> (PingRequest, err))"

text \<open>
  \<open>encodeHTTPGenericRequest\<close>: the request as JSON is the new body. \<open>Marshal\<close> is the
  standard library's encoding of a request value.
\<close>

definition encodeHTTPGenericRequest ::
  "(request \<Rightarrow> error + json) \<Rightarrow> json list \<Rightarrow> request \<Rightarrow> json list \<times> error option" where
  "encodeHTTPGenericRequest Marshal body request =
     (case Marshal request of
        Inl err \<Rightarrow> (body, Some err)
      | Inr j \<Rightarrow> ([j], None))"

record URL =
  Scheme :: string
  Host :: string
  Path :: string

definition copyURL :: "URL \<Rightarrow> string \<Rightarrow> URL" where
  "copyURL base path = (let next = base in next\<lparr>Path := path\<rparr>)"

text \<open>
  \<open>NewHTTPClient\<close>. \<open>url.Parse\<close> and \<open>httptransport.NewClient(...).Endpoint()\<close> are
  libraries': the parameters \<open>Parse\<close> and \<open>NewClient\<close>, the second given the codec
  functions of this repository.
\<close>

definition NewHTTPClient ::
  "gobreaker_defaults \<Rightarrow> (string \<Rightarrow> error + URL) \<Rightarrow>
   (string \<Rightarrow> URL \<Rightarrow> (json list \<Rightarrow> request \<Rightarrow> json list \<times> error option) \<Rightarrow>
      (http_Response \<Rightarrow> (PingResponse option \<times> error option) \<times> string) \<Rightarrow> 'w closure) \<Rightarrow>
   (request \<Rightarrow> error + json) \<Rightarrow> string Decoder \<Rightarrow> string \<Rightarrow> error + 'w Set" where
  "NewHTTPClient lib Parse NewClient Marshal Decode instance =
     (let instance = (if take 4 instance \<noteq> ''http'' then ''http://'' @ instance else instance)
      in case Parse instance of
           Inl err \<Rightarrow> Inl err
         | Inr u \<Rightarrow>
             (let limiter = ErroringLimiter (NewLimiter 1 100);
                  pingEndpoint = Endpoint (NewClient ''POST'' (copyURL u ''/ping'')
                                   (encodeHTTPGenericRequest Marshal) (decodeHTTPPingResponse Decode));
                  pingEndpoint = Wrap (TraceClient ''Ping'') pingEndpoint;
                  pingEndpoint = Wrap limiter pingEndpoint;
                  pingEndpoint = Wrap (Gobreaker (NewCircuitBreaker lib \<lparr>Name = ''Ping'', Timeout = 30\<rparr>)) pingEndpoint
              in Inr \<lparr>PingEndpoint = pingEndpoint\<rparr>))"

section \<open>Notions used to state the properties\<close>

text \<open>
  The middlewares that pass every call on to the endpoint they wrap and return its
  outcome: tracing, logging and instrumentation.
\<close>

fun transparent :: "middleware \<Rightarrow> bool" where
  "transparent (TraceServer operationName) = True"
| "transparent (TraceClient operationName) = True"
| "transparent (LoggingMiddleware kvs) = True"
| "transparent (InstrumentingMiddleware lvs) = True"
| "transparent m = False"

text \<open>The context a middleware hands to the endpoint it wraps.\<close>

fun enter :: "middleware \<Rightarrow> context \<Rightarrow> context" where
  "enter (TraceServer operationName) ctx = WithSpan operationName ctx"
| "enter (TraceClient operationName) ctx = WithSpan operationName ctx"
| "enter m ctx = ctx"

text \<open>Middlewares applied one after another, the first of the list first.\<close>

primrec wrap_all :: "middleware list \<Rightarrow> 'w endpoint \<Rightarrow> 'w endpoint" where
  "wrap_all [] e = e"
| "wrap_all (m # ms) e = wrap_all ms (Wrap m e)"

primrec inner_context :: "middleware list \<Rightarrow> context \<Rightarrow> context" where
  "inner_context [] ctx = ctx"
| "inner_context (m # ms) ctx = enter m (inner_context ms ctx)"

text \<open>
  Calls that arrive one after another at an endpoint, each at its time, with its context
  and request: the outcomes they get and the state they leave.
\<close>

type_synonym arrival = "nat \<times> context \<times> request"

definition arrive :: "'w endpoint \<Rightarrow> arrival \<Rightarrow> 'w server_state \<Rightarrow> outcome \<times> 'w server_state" where
  "arrive ep x s = call ep (fst (snd x)) (snd (snd x)) (s\<lparr>now := fst x\<rparr>)"

primrec after_calls :: "'w endpoint \<Rightarrow> arrival list \<Rightarrow> 'w server_state \<Rightarrow> 'w server_state" where
  "after_calls ep [] s = s"
| "after_calls ep (x # xs) s = after_calls ep xs (snd (arrive ep x s))"

primrec outcomes :: "'w endpoint \<Rightarrow> arrival list \<Rightarrow> 'w server_state \<Rightarrow> outcome list" where
  "outcomes ep [] s = []"
| "outcomes ep (x # xs) s = fst (arrive ep x s) # outcomes ep xs (snd (arrive ep x s))"

fun is_logging :: "middleware \<Rightarrow> bool" where
  "is_logging (LoggingMiddleware kvs) = True"
| "is_logging m = False"

fun is_instrumenting :: "middleware \<Rightarrow> bool" where
  "is_instrumenting (InstrumentingMiddleware lvs) = True"
| "is_instrumenting m = False"

text \<open>
  Concrete inputs: a breaker library that opens after two failures; a Thrift server that
  fails the first two pings and answers from the third on, counting the pings it gets;
  two calls, at times 0 and 1; a transport that always answers; the reply a server
  sends for a failed ping; a response with status 418.
\<close>

definition trips_at_two :: gobreaker_defaults where
  "trips_at_two = \<lparr>threshold = 2, defaultTimeout = 60\<rparr>"

definition flaky :: "nat HackerServiceClient" where
  "flaky ctx n =
     (if n < 2 then ((None, Some ErrRandomFailure), Suc n)
      else ((Some \<lparr>Value = ''pong'', thrift_Err = []\<rparr>, None), Suc n))"

definition two_calls :: "arrival list" where
  "two_calls = [(0, Background, PingRequest), (1, Background, PingRequest)]"

definition library_defaults :: gobreaker_defaults where
  "library_defaults = \<lparr>threshold = 6, defaultTimeout = 60\<rparr>"

definition answering :: "unit closure" where
  "answering ctx request w = (Return (Some \<lparr>P = ''pong'', Err = None\<rparr>, None), w)"

definition failed_reply :: thrift_PingReply where
  "failed_reply = \<lparr>Value = [], thrift_Err = ''random failure''\<rparr>"

definition teapot :: http_Response where
  \<open>teapot =
     \<lparr>StatusCode = 418, Status = ''418 I'm a teapot'', Body = ''{"error":"random failure"}''\<rparr>\<close>

section \<open>Properties\<close>

subsection \<open>The basic service\<close>

lemma failing_residues:
  "filter (\<lambda>n. basicService_Ping n = ([], Some ErrRandomFailure)) [0..<100] = [0..<10]"
  by code_simp

lemma passing_residues:
  "filter (\<lambda>n. basicService_Ping n = (''pong'', None)) [0..<100] = [10..<100]"
  by code_simp

text \<open>
  C1: with \<open>n = r % 100\<close> the residue of the random draw, \<open>Ping\<close> returns \<open>"pong"\<close> and a
  nil error exactly when \<open>n \<ge> failureRate * 100\<close>, and the empty payload with
  \<open>ErrRandomFailure\<close> exactly when \<open>n < failureRate * 100\<close>. Of the 100 residues, the share
  that fails is \<open>failureRate\<close> and the share that answers \<open>"pong"\<close> is \<open>1 - failureRate\<close>;
  \<open>failureRate\<close> lies in [0, 1].
\<close>

theorem ping_by_residue:
  "(basicService_Ping r = (''pong'', None)) = (failureRate * 100 \<le> of_nat (r mod 100))
   \<and> (basicService_Ping r = ([], Some ErrRandomFailure)) = (of_nat (r mod 100) < failureRate * 100)
   \<and> of_nat (length (filter (\<lambda>n. basicService_Ping n = ([], Some ErrRandomFailure)) [0..<100])) / 100
       = failureRate
   \<and> of_nat (length (filter (\<lambda>n. basicService_Ping n = (''pong'', None)) [0..<100])) / 100
       = 1 - failureRate
   \<and> 0 \<le> failureRate \<and> failureRate \<le> 1"
  by (simp add: failing_residues passing_residues)
     (simp add: basicService_Ping_def failureRate_def Let_def not_less)

subsection \<open>The error-string codec\<close>

text \<open>
  C2: \<open>err2str(nil) = ""\<close>, \<open>str2err("") = nil\<close>, and for every non-nil error whose
  message is not empty, decoding its encoding gives a non-nil error with the same
  message.
\<close>

theorem error_string_round_trip:
  "err2str None = [] \<and> str2err [] = None \<and>
   (Error e \<noteq> [] \<longrightarrow>
      (\<exists>e'. str2err (err2str (Some e)) = Some e' \<and> Error e' = Error e))"
  by (simp add: err2str_def str2err_def)

theorem error_string_round_trip_witness:
  "Error ErrRandomFailure \<noteq> [] \<and>
   (\<exists>e'. str2err (err2str (Some ErrRandomFailure)) = Some e' \<and> Error e' = ''random failure'')"
  using error_string_round_trip [of ErrRandomFailure] by auto

text \<open>
  C10: for every non-nil error whose message is empty, the encoding is \<open>""\<close> and decoding
  it gives nil; the message round trip holds exactly for the errors whose message is not
  empty.
\<close>

theorem empty_message_decodes_to_nil:
  "(Error e = [] \<longrightarrow> err2str (Some e) = [] \<and> str2err (err2str (Some e)) = None)
   \<and> ((\<exists>e'. str2err (err2str (Some e)) = Some e' \<and> Error e' = Error e) = (Error e \<noteq> []))"
  by (auto simp add: err2str_def str2err_def)

theorem empty_message_decodes_to_nil_witness:
  "Error (errors_New []) = [] \<and> err2str (Some (errors_New [])) = []
   \<and> str2err (err2str (Some (errors_New []))) = None"
  using empty_message_decodes_to_nil [of "errors_New []"] by auto

lemma decoded_error_is_not_the_sentinel: "str2err s \<noteq> Some ErrRandomFailure"
  by (simp add: str2err_def)

subsection \<open>The Thrift transport\<close>

lemma thriftServer_Ping_encodes:
  "call (PingEndpoint endpoints) ctx PingRequest s = (Return (Some resp, None), s') \<Longrightarrow>
   thriftServer_Ping endpoints ctx s =
     (Return (Some \<lparr>Value = P resp, thrift_Err = err2str (Err resp)\<rparr>, None), s')"
  by (simp add: thriftServer_Ping_def)

lemma MakeThriftPingEndpoint_ignores_reply_error:
  "client ctx (world s) = ((Some reply, None), w') \<Longrightarrow>
   call (MakeThriftPingEndpoint client) ctx PingRequest s =
     (Return (Some \<lparr>P = Value reply, Err = None\<rparr>, None), s\<lparr>world := w'\<rparr>)"
  by (simp add: MakeThriftPingEndpoint_def)

text \<open>What the caller of the Thrift client gets for a ping that failed on the server.\<close>

lemma thrift_client_reports_no_error:
  "client ctx (world s) = ((Some failed_reply, None), w') \<Longrightarrow>
   0 < tokens (limiter s) \<Longrightarrow> state (cb s) = StateClosed \<Longrightarrow>
   fst (Set_Ping (NewThriftClient lib client) ctx s) = Return ([], None)"
  by (auto simp add: Set_Ping_def NewThriftClient_def MakeThriftPingEndpoint_def broken_def
      limited_def Execute_def beforeRequest_def currentState_def Allow_def refill_def
      NewLimiter_def failed_reply_def Let_def split: prod.splits)

text \<open>
  C3: the Thrift server encodes a failed ping as the reply \<open>{Value: "", Err: "random
  failure"}\<close>. Given that reply and no transport error, the Thrift client's endpoint
  returns a response whose \<open>Err\<close> is nil: the reply's error string is not decoded. The gRPC
  decoder, given the same strings, returns the error.
\<close>

theorem thrift_client_drops_reply_error:
  "fst (thriftServer_Ping \<lparr>PingEndpoint = MakePingEndpoint (\<lambda>ctx w. (([], Some ErrRandomFailure), w))\<rparr> ctx s)
     = Return (Some failed_reply, None)
   \<and> fst (call (MakeThriftPingEndpoint (\<lambda>ctx w. ((Some failed_reply, None), w))) ctx PingRequest s)
     = Return (Some \<lparr>P = [], Err = None\<rparr>, None)
   \<and> decodeGRPCPingResponse (Some \<lparr>pb_P = [], pb_Err = ''random failure''\<rparr>)
     = Return (Some \<lparr>P = [], Err = Some (errors_New ''random failure'')\<rparr>, None)"
  by (simp add: thriftServer_Ping_def MakePingEndpoint_def MakeThriftPingEndpoint_def
      decodeGRPCPingResponse_def failed_reply_def err2str_def str2err_def)

subsection \<open>The HTTP transport\<close>

text \<open>
  C4: for every error given to \<open>errorEncoder\<close>, the status code written is 418 when the
  error is \<open>ErrRandomFailure\<close> and 500 otherwise, and the body is the JSON object with the
  one member \<open>error\<close>, the error's message. 418 is a 4xx code and is not 500.
\<close>

theorem error_encoder_status_and_body:
  "errorEncoder (Some e) rw =
     Return (rw @ [WriteHeader (if e = ErrRandomFailure then StatusTeapot
                                else StatusInternalServerError),
                   Encode (JObject [(''error'', JString (Error e))])])
   \<and> 400 \<le> StatusTeapot \<and> StatusTeapot < 500 \<and> StatusTeapot \<noteq> StatusInternalServerError
   \<and> StatusInternalServerError = 500"
  by (cases e)
     (simp_all add: errorEncoder_def err2code_def json_errorWrapper_def StatusTeapot_def
        StatusInternalServerError_def)

lemma failed_response_uses_errorEncoder:
  "encodeHTTPGenericResponse (Some \<lparr>P = p, Err = Some e\<rparr>) rw =
     Return (rw @ [WriteHeader (err2code (Some e)), Encode (JObject [(''error'', JString (Error e))])],
             None)"
  by (simp add: encodeHTTPGenericResponse_def errorEncoder_def json_errorWrapper_def)

text \<open>
  C9: for every response whose status code is not 200, \<open>decodeHTTPPingResponse\<close> returns a
  nil response and an error whose message is the status text; the body is left unread
  and the decoder is not run, so the result is the same whatever the body holds.
\<close>

theorem non_200_gives_status_text:
  "StatusCode r \<noteq> StatusOK \<Longrightarrow>
   decodeHTTPPingResponse Decode r = ((None, Some (errors_New (Status r))), Body r)
   \<and> Error (errors_New (Status r)) = Status r
   \<and> fst (decodeHTTPPingResponse Decode' (r\<lparr>Body := b\<rparr>)) = fst (decodeHTTPPingResponse Decode r)"
  by (simp add: decodeHTTPPingResponse_def)

theorem non_200_gives_status_text_witness:
  \<open>StatusCode teapot \<noteq> StatusOK
   \<and> decodeHTTPPingResponse (\<lambda>body. ((''pong'', None), [])) teapot
       = ((None, Some (errors_New ''418 I'm a teapot'')), ''{"error":"random failure"}'')\<close>
  using non_200_gives_status_text [of teapot "\<lambda>body. ((''pong'', None), [])"]
  by (simp add: teapot_def StatusOK_def)

lemma errorDecoder_would_read_the_message:
  "Decode (Body r) = ((\<lparr>Error_field = m\<rparr>, None), rest) \<Longrightarrow>
   errorDecoder Decode r = (Some (errors_New m), rest)"
  by (simp add: errorDecoder_def)

subsection \<open>The base endpoint\<close>

text \<open>
  C8: for every context, state and service, the endpoint made by \<open>MakePingEndpoint\<close>,
  called with a \<open>PingRequest\<close>, returns a \<open>PingResponse\<close> that holds the service's payload
  and the service's error, and a nil error.
\<close>

theorem ping_endpoint_returns_nil_error:
  "fst (call (MakePingEndpoint svc) ctx PingRequest s) =
     Return (Some \<lparr>P = fst (fst (svc ctx (world s))), Err = snd (fst (svc ctx (world s)))\<rparr>, None)
   \<and> returned_error (fst (call (MakePingEndpoint svc) ctx PingRequest s)) = None"
  by (simp add: MakePingEndpoint_def split: prod.splits)

lemma sentinel_stays_inside_the_response:
  "Int63 (world s) (drawn (world s)) mod 100 < 10 \<Longrightarrow>
   fst (call (MakePingEndpoint NewBasicService) ctx PingRequest s) =
     Return (Some \<lparr>P = [], Err = Some ErrRandomFailure\<rparr>, None)"
  by (simp add: MakePingEndpoint_def NewBasicService_def basicService_Ping_def failureRate_def
      split: prod.splits)

lemma other_request_panics:
  "call (MakePingEndpoint svc) ctx OtherRequest s = (Panic, s)"
  by (simp add: MakePingEndpoint_def)

subsection \<open>What a middleware leaves alone\<close>

lemma apply_middleware_now:
  assumes "\<And>ctx request s. now (snd (next ctx request s)) = now s"
  shows "now (snd (apply_middleware m next ctx request s)) = now s"
proof (cases m)
  case (ErroringLimiter lm)
  then show ?thesis
    using assms by (auto simp add: limited_def split: prod.splits)
next
  case (Gobreaker c)
  then show ?thesis
    using assms [of ctx request s]
    by (auto simp add: broken_def Execute_def split: prod.splits option.splits)
next
  case (TraceServer operationName)
  then show ?thesis
    using assms [of "WithSpan operationName ctx" request s]
    by (auto simp add: traced_def split: prod.splits)
next
  case (TraceClient operationName)
  then show ?thesis
    using assms [of "WithSpan operationName ctx" request s]
    by (auto simp add: traced_def split: prod.splits)
next
  case (LoggingMiddleware kvs)
  then show ?thesis
    using assms [of ctx request s] by (auto simp add: logged_def split: prod.splits)
next
  case (InstrumentingMiddleware lvs)
  then show ?thesis
    using assms [of ctx request s] by (auto simp add: instrumented_def split: prod.splits)
qed

lemma call_now: "now (snd (call e ctx request s)) = now s"
proof (induction e arbitrary: ctx request s)
  case (Endpoint f)
  then show ?case by (simp split: prod.splits)
next
  case (Wrap m e)
  then show ?case by (simp add: apply_middleware_now)
qed

lemma apply_middleware_logger:
  assumes "\<And>ctx request s. logger (snd (next ctx request s)) = logger s" and "\<not> is_logging m"
  shows "logger (snd (apply_middleware m next ctx request s)) = logger s"
proof (cases m)
  case (ErroringLimiter lm)
  then show ?thesis
    using assms(1) by (auto simp add: limited_def split: prod.splits)
next
  case (Gobreaker c)
  then show ?thesis
    using assms(1) [of ctx request s]
    by (auto simp add: broken_def Execute_def split: prod.splits option.splits)
next
  case (TraceServer operationName)
  then show ?thesis
    using assms(1) [of "WithSpan operationName ctx" request s]
    by (auto simp add: traced_def split: prod.splits)
next
  case (TraceClient operationName)
  then show ?thesis
    using assms(1) [of "WithSpan operationName ctx" request s]
    by (auto simp add: traced_def split: prod.splits)
next
  case (LoggingMiddleware kvs)
  then show ?thesis
    using assms(2) by simp
next
  case (InstrumentingMiddleware lvs)
  then show ?thesis
    using assms(1) [of ctx request s] by (auto simp add: instrumented_def split: prod.splits)
qed

lemma call_logger:
  "list_all (\<lambda>m. \<not> is_logging m) (chain e) \<Longrightarrow> logger (snd (call e ctx request s)) = logger s"
proof (induction e arbitrary: ctx request s)
  case (Endpoint f)
  then show ?case by (simp split: prod.splits)
next
  case (Wrap m e)
  then show ?case by (simp add: apply_middleware_logger)
qed

lemma apply_middleware_duration:
  assumes "\<And>ctx request s. duration (snd (next ctx request s)) = duration s"
    and "\<not> is_instrumenting m"
  shows "duration (snd (apply_middleware m next ctx request s)) = duration s"
proof (cases m)
  case (ErroringLimiter lm)
  then show ?thesis
    using assms(1) by (auto simp add: limited_def split: prod.splits)
next
  case (Gobreaker c)
  then show ?thesis
    using assms(1) [of ctx request s]
    by (auto simp add: broken_def Execute_def split: prod.splits option.splits)
next
  case (TraceServer operationName)
  then show ?thesis
    using assms(1) [of "WithSpan operationName ctx" request s]
    by (auto simp add: traced_def split: prod.splits)
next
  case (TraceClient operationName)
  then show ?thesis
    using assms(1) [of "WithSpan operationName ctx" request s]
    by (auto simp add: traced_def split: prod.splits)
next
  case (LoggingMiddleware kvs)
  then show ?thesis
    using assms(1) [of ctx request s] by (auto simp add: logged_def split: prod.splits)
next
  case (InstrumentingMiddleware lvs)
  then show ?thesis
    using assms(2) by simp
qed

lemma call_duration:
  "list_all (\<lambda>m. \<not> is_instrumenting m) (chain e) \<Longrightarrow>
   duration (snd (call e ctx request s)) = duration s"
proof (induction e arbitrary: ctx request s)
  case (Endpoint f)
  then show ?case by (simp split: prod.splits)
next
  case (Wrap m e)
  then show ?case by (simp add: apply_middleware_duration)
qed

subsection \<open>The order of the middlewares\<close>

lemma server_chain:
  "chain (PingEndpoint (New lib svc)) =
     [ErroringLimiter (NewLimiter 1 100),
      Gobreaker (NewCircuitBreaker lib \<lparr>Name = [], Timeout = 0\<rparr>),
      TraceServer ''Ping'',
      LoggingMiddleware [(''method'', ''Ping'')],
      InstrumentingMiddleware [(''method'', ''Ping'')]]"
  by (simp add: New_def MakePingEndpoint_def)

text \<open>
  C5, as the code has it: the chain of the HTTP client and of the gRPC client is,
  innermost to outermost, tracing, rate limiter, circuit breaker; the chain of the
  Thrift client is rate limiter, circuit breaker, with no tracing. No client applies
  logging or instrumentation. (\<open>NewHTTPClient\<close> fails exactly when the instance does not
  parse.)
\<close>

theorem client_chains:
  "chain (PingEndpoint (NewGRPCClient lib NewClient)) =
     [TraceClient ''Ping'', ErroringLimiter (NewLimiter 1 100),
      Gobreaker (NewCircuitBreaker lib \<lparr>Name = ''Ping'', Timeout = 30\<rparr>)]
   \<and> map_sum id (\<lambda>st. chain (PingEndpoint st))
        (NewHTTPClient lib Parse NewClient' Marshal Decode instance) =
      map_sum id (\<lambda>u. [TraceClient ''Ping'', ErroringLimiter (NewLimiter 1 100),
                        Gobreaker (NewCircuitBreaker lib \<lparr>Name = ''Ping'', Timeout = 30\<rparr>)])
        (Parse (if take 4 instance \<noteq> ''http'' then ''http://'' @ instance else instance))
   \<and> chain (PingEndpoint (NewThriftClient lib client)) =
     [ErroringLimiter (NewLimiter 1 100),
      Gobreaker (NewCircuitBreaker lib \<lparr>Name = ''Ping'', Timeout = 10\<rparr>)]"
  by (simp add: NewGRPCClient_def NewThriftClient_def NewHTTPClient_def
      MakeThriftPingEndpoint_def Let_def split: sum.splits)

text \<open>
  C5 as stated fails: the chain of the gRPC client, and that of the Thrift client, is
  not a rate limiter, then a circuit breaker, then tracing.
\<close>

theorem client_chain_counterexample:
  "\<not> (\<exists>lm c operationName.
        chain (PingEndpoint (NewGRPCClient library_defaults (\<lambda>service method enc dec. answering))) =
          [ErroringLimiter lm, Gobreaker c, TraceClient operationName])
   \<and> \<not> (\<exists>lm c operationName.
        chain (PingEndpoint (NewThriftClient library_defaults
                 (\<lambda>ctx (w::unit). ((Some failed_reply, None), w)))) =
          [ErroringLimiter lm, Gobreaker c, TraceClient operationName])"
  by (simp add: NewGRPCClient_def NewThriftClient_def MakeThriftPingEndpoint_def Let_def)

subsection \<open>Logging and instrumentation on the server\<close>

text \<open>
  C6: every call of the endpoint built by \<open>New\<close> with a \<open>PingRequest\<close> adds exactly one
  record to the endpoint's logger and exactly one observation to the histogram,
  whatever the outcome of the call.
\<close>

theorem server_call_logged_and_observed_once:
  "case call (PingEndpoint (New lib svc)) ctx PingRequest s of
     (out, s') \<Rightarrow>
       logger s' = logger s @
         [\<lparr>keyvals = [(''method'', ''Ping'')], transport_error = returned_error out\<rparr>]
     \<and> duration s' = duration s @
         [\<lparr>labels = [(''method'', ''Ping'')], seconds = now s' - now s\<rparr>]"
proof -
  define inner where "inner =
    Wrap (TraceServer ''Ping'')
      (Wrap (Gobreaker (NewCircuitBreaker lib \<lparr>Name = [], Timeout = 0\<rparr>))
        (Wrap (ErroringLimiter (NewLimiter 1 100)) (MakePingEndpoint svc)))"
  have New_eq: "PingEndpoint (New lib svc) =
      Wrap (InstrumentingMiddleware [(''method'', ''Ping'')])
        (Wrap (LoggingMiddleware [(''method'', ''Ping'')]) inner)"
    by (simp add: New_def inner_def)
  have chain_inner: "chain inner =
      [ErroringLimiter (NewLimiter 1 100),
       Gobreaker (NewCircuitBreaker lib \<lparr>Name = [], Timeout = 0\<rparr>), TraceServer ''Ping'']"
    by (simp add: inner_def MakePingEndpoint_def)
  obtain out s1 where run: "call inner ctx PingRequest s = (out, s1)"
    by (cases "call inner ctx PingRequest s")
  have l: "logger s1 = logger s"
    using call_logger [of inner ctx PingRequest s] run by (simp add: chain_inner)
  have d: "duration s1 = duration s"
    using call_duration [of inner ctx PingRequest s] run by (simp add: chain_inner)
  have n: "now s1 = now s"
    using call_now [of inner ctx PingRequest s] run by simp
  show ?thesis
    by (simp add: New_eq instrumented_def logged_def run l d n)
qed

text \<open>The three ways a call can fail, each of them logged and observed as above.\<close>

lemma server_limiter_rejects:
  "limiter s = \<lparr>tokens = 0, lastRefill = now s\<rparr> \<Longrightarrow> state (cb s) = StateClosed \<Longrightarrow>
   fst (call (PingEndpoint (New lib svc)) ctx PingRequest s) = Return (None, Some ErrLimited)
   \<and> world (snd (call (PingEndpoint (New lib svc)) ctx PingRequest s)) = world s"
  by (simp add: New_def MakePingEndpoint_def instrumented_def logged_def traced_def broken_def
      limited_def Execute_def beforeRequest_def currentState_def Allow_def refill_def
      NewLimiter_def split: prod.splits)

lemma server_breaker_rejects:
  "cb s = open_breaker c t \<Longrightarrow> now s < t + timeout c \<Longrightarrow>
   fst (call (PingEndpoint (New lib svc)) ctx PingRequest s) = Return (None, Some ErrOpenState)
   \<and> world (snd (call (PingEndpoint (New lib svc)) ctx PingRequest s)) = world s
   \<and> limiter (snd (call (PingEndpoint (New lib svc)) ctx PingRequest s)) = limiter s"
  by (simp add: New_def MakePingEndpoint_def instrumented_def logged_def traced_def broken_def
      Execute_def beforeRequest_def currentState_def open_breaker_def split: prod.splits)

lemma server_service_fails:
  "0 < tokens (limiter s) \<Longrightarrow> state (cb s) = StateClosed \<Longrightarrow>
   fst (svc (WithSpan ''Ping'' ctx) (world s)) = (p, Some e) \<Longrightarrow>
   fst (call (PingEndpoint (New lib svc)) ctx PingRequest s) =
     Return (Some \<lparr>P = p, Err = Some e\<rparr>, None)"
  by (auto simp add: New_def MakePingEndpoint_def instrumented_def logged_def traced_def
      broken_def limited_def Execute_def beforeRequest_def currentState_def Allow_def refill_def
      NewLimiter_def Let_def split: prod.splits)

text \<open>
  The order can be observed: a call the limiter rejects leaves a span on the server,
  where tracing is outside the limiter, and none on a client, where it is inside.
\<close>

lemma server_limiter_rejection_leaves_a_span:
  "limiter s = \<lparr>tokens = 0, lastRefill = now s\<rparr> \<Longrightarrow> state (cb s) = StateClosed \<Longrightarrow>
   spans (snd (call (PingEndpoint (New lib svc)) ctx PingRequest s)) =
     spans s @ [\<lparr>operation = ''Ping'', parent = ctx, span_error = Some ErrLimited\<rparr>]"
  by (simp add: New_def MakePingEndpoint_def instrumented_def logged_def traced_def broken_def
      limited_def Execute_def beforeRequest_def currentState_def Allow_def refill_def
      NewLimiter_def split: prod.splits)

lemma client_limiter_rejection_leaves_no_span:
  "limiter s = \<lparr>tokens = 0, lastRefill = now s\<rparr> \<Longrightarrow> state (cb s) = StateClosed \<Longrightarrow>
   fst (call (PingEndpoint (NewGRPCClient lib NewClient)) ctx PingRequest s) =
     Return (None, Some ErrLimited)
   \<and> spans (snd (call (PingEndpoint (NewGRPCClient lib NewClient)) ctx PingRequest s)) = spans s"
  by (simp add: NewGRPCClient_def traced_def broken_def limited_def Execute_def
      beforeRequest_def currentState_def Allow_def refill_def NewLimiter_def split: prod.splits)

subsection \<open>The circuit breaker\<close>

lemma breaker_settings:
  "timeout (NewCircuitBreaker lib \<lparr>Name = ''Ping'', Timeout = 10\<rparr>) = 10
   \<and> timeout (NewCircuitBreaker lib \<lparr>Name = ''Ping'', Timeout = 30\<rparr>) = 30
   \<and> timeout (NewCircuitBreaker lib \<lparr>Name = [], Timeout = 0\<rparr>) = defaultTimeout lib
   \<and> readyToTrip (NewCircuitBreaker lib st) = threshold lib"
  by (simp add: NewCircuitBreaker_def)

lemma Gobreaker_runs_Execute:
  "call (Wrap (Gobreaker c) e) ctx request s =
     (case Execute c (now s) (call e ctx request) (cb s, s) of
        (out, b', s') \<Rightarrow> (out, s'\<lparr>cb := b'\<rparr>))"
  by (simp add: broken_def)

lemma afterRequest_closed_failure:
  "state b = StateClosed \<Longrightarrow>
   afterRequest c t False b =
     (if readyToTrip c \<le> ConsecutiveFailures b + 1 then open_breaker c t
      else b\<lparr>ConsecutiveFailures := ConsecutiveFailures b + 1\<rparr>)"
  by (simp add: afterRequest_def currentState_def)

lemma afterRequest_closed_success:
  "state b = StateClosed \<Longrightarrow> afterRequest c t True b = b\<lparr>ConsecutiveFailures := 0\<rparr>"
  by (simp add: afterRequest_def currentState_def)

lemma one_trial_admitted:
  "t + timeout c \<le> t' \<Longrightarrow>
   beforeRequest t' (open_breaker c t) = (None, half_open_breaker\<lparr>Requests := 1\<rparr>)"
  by (simp add: beforeRequest_def currentState_def open_breaker_def half_open_breaker_def)

text \<open>One call through the breaker, in each of its states.\<close>

lemma breaker_closed:
  "state (cb s) = StateClosed \<Longrightarrow>
   call (Wrap (Gobreaker c) e) ctx request s =
     (fst (call e ctx request s),
      (snd (call e ctx request s))
        \<lparr>cb := afterRequest c (now s) (succeeded (fst (call e ctx request s))) (cb s)\<rparr>)"
  by (simp add: broken_def Execute_def beforeRequest_def currentState_def split: prod.splits)

lemma breaker_open:
  "cb s = open_breaker c t \<Longrightarrow> now s < t + timeout c \<Longrightarrow>
   call (Wrap (Gobreaker c) e) ctx request s = (Return (None, Some ErrOpenState), s)"
  by (simp add: broken_def Execute_def beforeRequest_def currentState_def open_breaker_def)

lemma breaker_trial:
  "cb s = open_breaker c t \<Longrightarrow> t + timeout c \<le> now s \<Longrightarrow>
   call (Wrap (Gobreaker c) e) ctx request s =
     (fst (call e ctx request s),
      (snd (call e ctx request s))
        \<lparr>cb := if succeeded (fst (call e ctx request s)) then closed_breaker
                else open_breaker c (now s)\<rparr>)"
  by (simp add: broken_def Execute_def beforeRequest_def afterRequest_def currentState_def
      open_breaker_def half_open_breaker_def split: prod.splits)

lemma breaker_trial_in_flight:
  "cb s = half_open_breaker\<lparr>Requests := 1\<rparr> \<Longrightarrow>
   call (Wrap (Gobreaker c) e) ctx request s = (Return (None, Some ErrTooManyRequests), s)"
  by (simp add: broken_def Execute_def beforeRequest_def currentState_def half_open_breaker_def)

text \<open>
  Tracing, logging and instrumentation around an endpoint change neither its outcome
  nor what it does to the breaker, the bucket and the world.
\<close>

lemma transparent_layer:
  assumes "transparent m"
  shows "fst (call (Wrap m e) ctx request s) = fst (call e (enter m ctx) request s)
    \<and> cb (snd (call (Wrap m e) ctx request s)) = cb (snd (call e (enter m ctx) request s))
    \<and> limiter (snd (call (Wrap m e) ctx request s)) = limiter (snd (call e (enter m ctx) request s))
    \<and> world (snd (call (Wrap m e) ctx request s)) = world (snd (call e (enter m ctx) request s))"
  using assms
  by (cases m) (auto simp add: traced_def logged_def instrumented_def split: prod.splits)

lemma transparent_layers:
  "list_all transparent ms \<Longrightarrow>
   fst (call (wrap_all ms e) ctx request s) = fst (call e (inner_context ms ctx) request s)
    \<and> cb (snd (call (wrap_all ms e) ctx request s)) = cb (snd (call e (inner_context ms ctx) request s))
    \<and> limiter (snd (call (wrap_all ms e) ctx request s)) = limiter (snd (call e (inner_context ms ctx) request s))
    \<and> world (snd (call (wrap_all ms e) ctx request s)) = world (snd (call e (inner_context ms ctx) request s))"
proof (induction ms arbitrary: e)
  case Nil
  then show ?case by simp
next
  case (Cons m ms)
  then have "transparent m" and rest: "list_all transparent ms" by simp_all
  from Cons.IH [OF rest, of "Wrap m e"] transparent_layer [OF \<open>transparent m\<close>, of e "inner_context ms ctx" request s]
  show ?case by simp
qed

lemma same_inside:
  "list_all transparent ms \<Longrightarrow>
   (\<And>ctx. call a ctx request s = call b ctx request s) \<Longrightarrow>
   call (wrap_all ms a) ctx request s = call (wrap_all ms b) ctx request s"
proof (induction ms arbitrary: a b ctx)
  case Nil
  then show ?case by simp
next
  case (Cons m ms)
  have "call (Wrap m a) ctx' request s = call (Wrap m b) ctx' request s" for ctx'
    using Cons.prems(1) Cons.prems(2) [of "enter m ctx'"]
    by (cases m) (simp_all add: traced_def logged_def instrumented_def)
  then show ?case
    using Cons.IH [of "Wrap m a" "Wrap m b" ctx] Cons.prems(1) by simp
qed

text \<open>The breaker under such layers.\<close>

lemma wrapped_breaker_closed:
  assumes "list_all transparent ms" and "state (cb s) = StateClosed"
  shows "fst (call (wrap_all ms (Wrap (Gobreaker c) e)) ctx request s) =
           fst (call e (inner_context ms ctx) request s)
    \<and> world (snd (call (wrap_all ms (Wrap (Gobreaker c) e)) ctx request s)) =
           world (snd (call e (inner_context ms ctx) request s))
    \<and> limiter (snd (call (wrap_all ms (Wrap (Gobreaker c) e)) ctx request s)) =
           limiter (snd (call e (inner_context ms ctx) request s))
    \<and> cb (snd (call (wrap_all ms (Wrap (Gobreaker c) e)) ctx request s)) =
           afterRequest c (now s) (succeeded (fst (call e (inner_context ms ctx) request s))) (cb s)"
  using transparent_layers [OF assms(1), of "Wrap (Gobreaker c) e" ctx request s]
    breaker_closed [OF assms(2), of c e "inner_context ms ctx" request]
  by simp

lemma wrapped_breaker_open:
  assumes "list_all transparent ms" and "cb s = open_breaker c t" and "now s < t + timeout c"
  shows "fst (call (wrap_all ms (Wrap (Gobreaker c) e)) ctx request s) =
           Return (None, Some ErrOpenState)
    \<and> cb (snd (call (wrap_all ms (Wrap (Gobreaker c) e)) ctx request s)) = open_breaker c t
    \<and> world (snd (call (wrap_all ms (Wrap (Gobreaker c) e)) ctx request s)) = world s
    \<and> limiter (snd (call (wrap_all ms (Wrap (Gobreaker c) e)) ctx request s)) = limiter s
    \<and> call (wrap_all ms (Wrap (Gobreaker c) e)) ctx request s =
        call (wrap_all ms (Wrap (Gobreaker c) e')) ctx request s"
proof -
  have "call (Wrap (Gobreaker c) e) ctx' request s = call (Wrap (Gobreaker c) e') ctx' request s"
    for ctx'
    using breaker_open [OF assms(2,3), of e ctx' request]
      breaker_open [OF assms(2,3), of e' ctx' request]
    by simp
  then have "call (wrap_all ms (Wrap (Gobreaker c) e)) ctx request s =
      call (wrap_all ms (Wrap (Gobreaker c) e')) ctx request s"
    using assms(1) by (intro same_inside) simp_all
  then show ?thesis
    using transparent_layers [OF assms(1), of "Wrap (Gobreaker c) e" ctx request s]
      breaker_open [OF assms(2,3), of e "inner_context ms ctx" request] assms(2)
    by simp
qed

lemma wrapped_breaker_trial:
  assumes "list_all transparent ms" and "cb s = open_breaker c t" and "t + timeout c \<le> now s"
  shows "fst (call (wrap_all ms (Wrap (Gobreaker c) e)) ctx request s) =
           fst (call e (inner_context ms ctx) request s)
    \<and> world (snd (call (wrap_all ms (Wrap (Gobreaker c) e)) ctx request s)) =
           world (snd (call e (inner_context ms ctx) request s))
    \<and> limiter (snd (call (wrap_all ms (Wrap (Gobreaker c) e)) ctx request s)) =
           limiter (snd (call e (inner_context ms ctx) request s))
    \<and> cb (snd (call (wrap_all ms (Wrap (Gobreaker c) e)) ctx request s)) =
           (if succeeded (fst (call e (inner_context ms ctx) request s)) then closed_breaker
            else open_breaker c (now s))"
  using transparent_layers [OF assms(1), of "Wrap (Gobreaker c) e" ctx request s]
    breaker_trial [OF assms(2,3), of e "inner_context ms ctx" request]
  by simp

lemma wrapped_breaker_trial_in_flight:
  assumes "list_all transparent ms" and "cb s = half_open_breaker\<lparr>Requests := 1\<rparr>"
  shows "fst (call (wrap_all ms (Wrap (Gobreaker c) e)) ctx request s) =
           Return (None, Some ErrTooManyRequests)
    \<and> cb (snd (call (wrap_all ms (Wrap (Gobreaker c) e)) ctx request s)) = cb s
    \<and> world (snd (call (wrap_all ms (Wrap (Gobreaker c) e)) ctx request s)) = world s
    \<and> limiter (snd (call (wrap_all ms (Wrap (Gobreaker c) e)) ctx request s)) = limiter s
    \<and> call (wrap_all ms (Wrap (Gobreaker c) e)) ctx request s =
        call (wrap_all ms (Wrap (Gobreaker c) e')) ctx request s"
proof -
  have "call (Wrap (Gobreaker c) e) ctx' request s = call (Wrap (Gobreaker c) e') ctx' request s"
    for ctx'
    using breaker_trial_in_flight [OF assms(2), of c e ctx' request]
      breaker_trial_in_flight [OF assms(2), of c e' ctx' request]
    by simp
  then have "call (wrap_all ms (Wrap (Gobreaker c) e)) ctx request s =
      call (wrap_all ms (Wrap (Gobreaker c) e')) ctx request s"
    using assms(1) by (intro same_inside) simp_all
  then show ?thesis
    using transparent_layers [OF assms(1), of "Wrap (Gobreaker c) e" ctx request s]
      breaker_trial_in_flight [OF assms(2), of c e "inner_context ms ctx" request]
    by simp
qed

text \<open>Calls one after another.\<close>

lemma after_calls_append:
  "after_calls ep (xs @ ys) s = after_calls ep ys (after_calls ep xs s)"
  by (induction xs arbitrary: s) simp_all

lemma outcomes_append:
  "outcomes ep (xs @ ys) s = outcomes ep xs s @ outcomes ep ys (after_calls ep xs s)"
  by (induction xs arbitrary: s) simp_all

lemma failures_below_threshold:
  assumes outer: "list_all transparent ms"
  shows "state (cb s) = StateClosed \<Longrightarrow>
    ConsecutiveFailures (cb s) + length xs < readyToTrip c \<Longrightarrow>
    list_all (\<lambda>out. \<not> succeeded out) (outcomes (wrap_all ms (Wrap (Gobreaker c) e)) xs s) \<Longrightarrow>
    cb (after_calls (wrap_all ms (Wrap (Gobreaker c) e)) xs s) =
      (cb s)\<lparr>ConsecutiveFailures := ConsecutiveFailures (cb s) + length xs\<rparr>"
proof (induction xs arbitrary: s)
  case Nil
  then show ?case by simp
next
  case (Cons x xs)
  let ?ep = "wrap_all ms (Wrap (Gobreaker c) e)"
  let ?s = "s\<lparr>now := fst x\<rparr>"
  let ?s' = "snd (arrive ?ep x s)"
  have closed: "state (cb ?s) = StateClosed" using Cons.prems(1) by simp
  have failed: "\<not> succeeded (fst (arrive ?ep x s))" using Cons.prems(3) by simp
  have step: "cb ?s' = (cb s)\<lparr>ConsecutiveFailures := ConsecutiveFailures (cb s) + 1\<rparr>"
    using wrapped_breaker_closed [OF outer closed, of c e "fst (snd x)" "snd (snd x)"] failed
      Cons.prems(1,2)
    by (simp add: arrive_def afterRequest_closed_failure)
  have "cb (after_calls ?ep xs ?s') =
      (cb ?s')\<lparr>ConsecutiveFailures := ConsecutiveFailures (cb ?s') + length xs\<rparr>"
    using Cons.prems step by (intro Cons.IH) simp_all
  then show ?case by (simp add: step)
qed

lemma opens_at_threshold:
  assumes outer: "list_all transparent ms"
    and N: "length xs = readyToTrip c" "xs \<noteq> []"
    and start: "state (cb s) = StateClosed" "ConsecutiveFailures (cb s) = 0"
    and fails: "list_all (\<lambda>out. \<not> succeeded out) (outcomes (wrap_all ms (Wrap (Gobreaker c) e)) xs s)"
  shows "cb (after_calls (wrap_all ms (Wrap (Gobreaker c) e)) (butlast xs) s) =
           (cb s)\<lparr>ConsecutiveFailures := length xs - 1\<rparr>
    \<and> cb (after_calls (wrap_all ms (Wrap (Gobreaker c) e)) xs s) = open_breaker c (fst (last xs))"
proof -
  let ?ep = "wrap_all ms (Wrap (Gobreaker c) e)"
  let ?s1 = "after_calls ?ep (butlast xs) s"
  have xs: "xs = butlast xs @ [last xs]" using N(2) by simp
  have outs: "outcomes ?ep xs s = outcomes ?ep (butlast xs) s @ [fst (arrive ?ep (last xs) ?s1)]"
    using outcomes_append [of ?ep "butlast xs" "[last xs]" s] xs by simp
  have fails1: "list_all (\<lambda>out. \<not> succeeded out) (outcomes ?ep (butlast xs) s)"
    and failed: "\<not> succeeded (fst (arrive ?ep (last xs) ?s1))"
    using fails outs by simp_all
  have pos: "0 < readyToTrip c" using N by (cases xs) auto
  have below: "cb ?s1 = (cb s)\<lparr>ConsecutiveFailures := length xs - 1\<rparr>"
    using failures_below_threshold [OF outer start(1), of "butlast xs" c e] fails1 N start(2) pos
    by simp
  have closed: "state (cb (?s1\<lparr>now := fst (last xs)\<rparr>)) = StateClosed"
    using below start(1) by simp
  have "cb (snd (arrive ?ep (last xs) ?s1)) = open_breaker c (fst (last xs))"
    using wrapped_breaker_closed [OF outer closed, of c e "fst (snd (last xs))" "snd (snd (last xs))"]
      failed below N start
    by (simp add: arrive_def afterRequest_closed_failure)
  moreover have "after_calls ?ep xs s = snd (arrive ?ep (last xs) ?s1)"
    using after_calls_append [of ?ep "butlast xs" "[last xs]" s] xs by simp
  ultimately show ?thesis using below by simp
qed

text \<open>
  Every endpoint this repository constructs is a breaker around the limited endpoint,
  under tracing, logging and instrumentation on the server and under nothing on a client.
\<close>

lemma constructed_with_breaker:
  "PingEndpoint (New lib svc) =
     wrap_all [TraceServer ''Ping'', LoggingMiddleware [(''method'', ''Ping'')],
               InstrumentingMiddleware [(''method'', ''Ping'')]]
       (Wrap (Gobreaker (NewCircuitBreaker lib \<lparr>Name = [], Timeout = 0\<rparr>))
          (Wrap (ErroringLimiter (NewLimiter 1 100)) (MakePingEndpoint svc)))
   \<and> PingEndpoint (NewThriftClient lib client) =
     wrap_all []
       (Wrap (Gobreaker (NewCircuitBreaker lib \<lparr>Name = ''Ping'', Timeout = 10\<rparr>))
          (Wrap (ErroringLimiter (NewLimiter 1 100)) (MakeThriftPingEndpoint client)))
   \<and> PingEndpoint (NewGRPCClient lib NewClient) =
     wrap_all []
       (Wrap (Gobreaker (NewCircuitBreaker lib \<lparr>Name = ''Ping'', Timeout = 30\<rparr>))
          (Wrap (ErroringLimiter (NewLimiter 1 100))
             (Wrap (TraceClient ''Ping'')
                (Endpoint (NewClient ''pb.Hacker'' ''Ping'' encodeGRPCPingRequest
                             decodeGRPCPingResponse)))))
   \<and> map_sum id PingEndpoint (NewHTTPClient lib Parse NewClient' Marshal Decode instance) =
     map_sum id
       (\<lambda>u. wrap_all []
          (Wrap (Gobreaker (NewCircuitBreaker lib \<lparr>Name = ''Ping'', Timeout = 30\<rparr>))
             (Wrap (ErroringLimiter (NewLimiter 1 100))
                (Wrap (TraceClient ''Ping'')
                   (Endpoint (NewClient' ''POST'' (copyURL u ''/ping'')
                                (encodeHTTPGenericRequest Marshal)
                                (decodeHTTPPingResponse Decode)))))))
       (Parse (if take 4 instance \<noteq> ''http'' then ''http://'' @ instance else instance))"
  by (simp add: New_def NewThriftClient_def NewGRPCClient_def NewHTTPClient_def Let_def
      split: sum.splits)

text \<open>
  C7: let an endpoint be a breaker around a wrapped endpoint, under any layers of
  tracing, logging and instrumentation; every endpoint this repository constructs is
  one, with the timeout its constructor configures. A fresh breaker is closed. While
  the breaker is closed a call is passed to the wrapped endpoint, whose outcome it
  returns; a success clears the count of failures, a failure adds one to it, and the
  failure that brings the count to \<open>N\<close> opens the breaker. So if \<open>N\<close> calls one after another
  fail, starting with the count at zero, the breaker is closed with the count at
  \<open>N - 1\<close> before the last of them and open after it, from the time \<open>t\<close> of that call. A
  call before \<open>t + timeout\<close> fails with \<open>ErrOpenState\<close> and is the same whatever the wrapped
  endpoint is: the wrapped endpoint is not invoked, and the bucket and the world are as
  they were. The first call from \<open>t + timeout\<close> on is admitted as the one trial call and
  passed to the wrapped endpoint: its success closes the breaker, its failure opens it
  again. A call that arrives while the trial call is in flight fails and does not invoke
  the wrapped endpoint.
\<close>

theorem circuit_breaker_three_states:
  assumes ep: "ep = wrap_all ms (Wrap (Gobreaker c) e)"
    and outer: "list_all transparent ms"
    and N: "length xs = readyToTrip c" "xs \<noteq> []"
    and start: "state (cb s) = StateClosed" "ConsecutiveFailures (cb s) = 0"
    and fails: "list_all (\<lambda>out. \<not> succeeded out) (outcomes ep xs s)"
  shows "cb (fresh t0 w) = closed_breaker \<and> state closed_breaker = StateClosed
      \<and> ConsecutiveFailures closed_breaker = 0
    \<and> (state (cb s0) = StateClosed \<longrightarrow>
         fst (call ep ctx request s0) = fst (call e (inner_context ms ctx) request s0)
       \<and> world (snd (call ep ctx request s0)) = world (snd (call e (inner_context ms ctx) request s0))
       \<and> limiter (snd (call ep ctx request s0)) =
           limiter (snd (call e (inner_context ms ctx) request s0))
       \<and> cb (snd (call ep ctx request s0)) =
           (if succeeded (fst (call ep ctx request s0)) then (cb s0)\<lparr>ConsecutiveFailures := 0\<rparr>
            else if readyToTrip c \<le> ConsecutiveFailures (cb s0) + 1 then open_breaker c (now s0)
            else (cb s0)\<lparr>ConsecutiveFailures := ConsecutiveFailures (cb s0) + 1\<rparr>))
    \<and> cb (after_calls ep (butlast xs) s) = (cb s)\<lparr>ConsecutiveFailures := length xs - 1\<rparr>
    \<and> cb (after_calls ep xs s) = open_breaker c (fst (last xs))
    \<and> state (open_breaker c t) = StateOpen
    \<and> (cb s0 = open_breaker c t \<and> now s0 < t + timeout c \<longrightarrow>
         fst (call ep ctx request s0) = Return (None, Some ErrOpenState)
       \<and> cb (snd (call ep ctx request s0)) = open_breaker c t
       \<and> world (snd (call ep ctx request s0)) = world s0
       \<and> limiter (snd (call ep ctx request s0)) = limiter s0
       \<and> call ep ctx request s0 = call (wrap_all ms (Wrap (Gobreaker c) e')) ctx request s0)
    \<and> (cb s0 = open_breaker c t \<and> t + timeout c \<le> now s0 \<longrightarrow>
         beforeRequest (now s0) (cb s0) = (None, half_open_breaker\<lparr>Requests := 1\<rparr>)
       \<and> fst (call ep ctx request s0) = fst (call e (inner_context ms ctx) request s0)
       \<and> world (snd (call ep ctx request s0)) = world (snd (call e (inner_context ms ctx) request s0))
       \<and> limiter (snd (call ep ctx request s0)) =
           limiter (snd (call e (inner_context ms ctx) request s0))
       \<and> cb (snd (call ep ctx request s0)) =
           (if succeeded (fst (call ep ctx request s0)) then closed_breaker
            else open_breaker c (now s0)))
    \<and> (cb s0 = half_open_breaker\<lparr>Requests := 1\<rparr> \<longrightarrow>
         fst (call ep ctx request s0) = Return (None, Some ErrTooManyRequests)
       \<and> cb (snd (call ep ctx request s0)) = cb s0
       \<and> world (snd (call ep ctx request s0)) = world s0
       \<and> limiter (snd (call ep ctx request s0)) = limiter s0
       \<and> call ep ctx request s0 = call (wrap_all ms (Wrap (Gobreaker c) e')) ctx request s0)
    \<and> PingEndpoint (New lib svc) =
        wrap_all [TraceServer ''Ping'', LoggingMiddleware [(''method'', ''Ping'')],
                  InstrumentingMiddleware [(''method'', ''Ping'')]]
          (Wrap (Gobreaker (NewCircuitBreaker lib \<lparr>Name = [], Timeout = 0\<rparr>))
             (Wrap (ErroringLimiter (NewLimiter 1 100)) (MakePingEndpoint svc)))
    \<and> PingEndpoint (NewThriftClient lib client) =
        wrap_all []
          (Wrap (Gobreaker (NewCircuitBreaker lib \<lparr>Name = ''Ping'', Timeout = 10\<rparr>))
             (Wrap (ErroringLimiter (NewLimiter 1 100)) (MakeThriftPingEndpoint client)))
    \<and> PingEndpoint (NewGRPCClient lib NewClient) =
        wrap_all []
          (Wrap (Gobreaker (NewCircuitBreaker lib \<lparr>Name = ''Ping'', Timeout = 30\<rparr>))
             (Wrap (ErroringLimiter (NewLimiter 1 100))
                (Wrap (TraceClient ''Ping'')
                   (Endpoint (NewClient ''pb.Hacker'' ''Ping'' encodeGRPCPingRequest
                                decodeGRPCPingResponse)))))
    \<and> map_sum id PingEndpoint (NewHTTPClient lib Parse NewClient' Marshal Decode instance) =
        map_sum id
          (\<lambda>u. wrap_all []
             (Wrap (Gobreaker (NewCircuitBreaker lib \<lparr>Name = ''Ping'', Timeout = 30\<rparr>))
                (Wrap (ErroringLimiter (NewLimiter 1 100))
                   (Wrap (TraceClient ''Ping'')
                      (Endpoint (NewClient' ''POST'' (copyURL u ''/ping'')
                                   (encodeHTTPGenericRequest Marshal)
                                   (decodeHTTPPingResponse Decode)))))))
          (Parse (if take 4 instance \<noteq> ''http'' then ''http://'' @ instance else instance))
    \<and> timeout (NewCircuitBreaker lib \<lparr>Name = ''Ping'', Timeout = 10\<rparr>) = 10
    \<and> timeout (NewCircuitBreaker lib \<lparr>Name = ''Ping'', Timeout = 30\<rparr>) = 30
    \<and> timeout (NewCircuitBreaker lib \<lparr>Name = [], Timeout = 0\<rparr>) = defaultTimeout lib
    \<and> readyToTrip (NewCircuitBreaker lib st) = threshold lib"
proof -
  have start_closed: "cb (fresh t0 w) = closed_breaker \<and> state closed_breaker = StateClosed
      \<and> ConsecutiveFailures closed_breaker = 0"
    by (simp add: fresh_def closed_breaker_def)
  have through: "state (cb s0) = StateClosed \<longrightarrow>
         fst (call ep ctx request s0) = fst (call e (inner_context ms ctx) request s0)
       \<and> world (snd (call ep ctx request s0)) = world (snd (call e (inner_context ms ctx) request s0))
       \<and> limiter (snd (call ep ctx request s0)) =
           limiter (snd (call e (inner_context ms ctx) request s0))
       \<and> cb (snd (call ep ctx request s0)) =
           (if succeeded (fst (call ep ctx request s0)) then (cb s0)\<lparr>ConsecutiveFailures := 0\<rparr>
            else if readyToTrip c \<le> ConsecutiveFailures (cb s0) + 1 then open_breaker c (now s0)
            else (cb s0)\<lparr>ConsecutiveFailures := ConsecutiveFailures (cb s0) + 1\<rparr>)"
  proof
    assume closed: "state (cb s0) = StateClosed"
    show "fst (call ep ctx request s0) = fst (call e (inner_context ms ctx) request s0)
       \<and> world (snd (call ep ctx request s0)) = world (snd (call e (inner_context ms ctx) request s0))
       \<and> limiter (snd (call ep ctx request s0)) =
           limiter (snd (call e (inner_context ms ctx) request s0))
       \<and> cb (snd (call ep ctx request s0)) =
           (if succeeded (fst (call ep ctx request s0)) then (cb s0)\<lparr>ConsecutiveFailures := 0\<rparr>
            else if readyToTrip c \<le> ConsecutiveFailures (cb s0) + 1 then open_breaker c (now s0)
            else (cb s0)\<lparr>ConsecutiveFailures := ConsecutiveFailures (cb s0) + 1\<rparr>)"
      using wrapped_breaker_closed [OF outer closed, of c e ctx request] closed
      by (simp add: ep afterRequest_closed_failure afterRequest_closed_success)
  qed
  have run: "cb (after_calls ep (butlast xs) s) = (cb s)\<lparr>ConsecutiveFailures := length xs - 1\<rparr>
      \<and> cb (after_calls ep xs s) = open_breaker c (fst (last xs))"
    using opens_at_threshold [OF outer N start, of e] fails by (simp add: ep)
  have opened: "state (open_breaker c t) = StateOpen"
    by (simp add: open_breaker_def)
  have rejected: "cb s0 = open_breaker c t \<and> now s0 < t + timeout c \<longrightarrow>
         fst (call ep ctx request s0) = Return (None, Some ErrOpenState)
       \<and> cb (snd (call ep ctx request s0)) = open_breaker c t
       \<and> world (snd (call ep ctx request s0)) = world s0
       \<and> limiter (snd (call ep ctx request s0)) = limiter s0
       \<and> call ep ctx request s0 = call (wrap_all ms (Wrap (Gobreaker c) e')) ctx request s0"
    unfolding ep using wrapped_breaker_open [OF outer, of s0 c t e ctx request e'] by blast
  have trial: "cb s0 = open_breaker c t \<and> t + timeout c \<le> now s0 \<longrightarrow>
         beforeRequest (now s0) (cb s0) = (None, half_open_breaker\<lparr>Requests := 1\<rparr>)
       \<and> fst (call ep ctx request s0) = fst (call e (inner_context ms ctx) request s0)
       \<and> world (snd (call ep ctx request s0)) = world (snd (call e (inner_context ms ctx) request s0))
       \<and> limiter (snd (call ep ctx request s0)) =
           limiter (snd (call e (inner_context ms ctx) request s0))
       \<and> cb (snd (call ep ctx request s0)) =
           (if succeeded (fst (call ep ctx request s0)) then closed_breaker
            else open_breaker c (now s0))"
    using wrapped_breaker_trial [OF outer, of s0 c t e ctx request]
      one_trial_admitted [of t c "now s0"]
    by (simp add: ep)
  have in_flight: "cb s0 = half_open_breaker\<lparr>Requests := 1\<rparr> \<longrightarrow>
         fst (call ep ctx request s0) = Return (None, Some ErrTooManyRequests)
       \<and> cb (snd (call ep ctx request s0)) = cb s0
       \<and> world (snd (call ep ctx request s0)) = world s0
       \<and> limiter (snd (call ep ctx request s0)) = limiter s0
       \<and> call ep ctx request s0 = call (wrap_all ms (Wrap (Gobreaker c) e')) ctx request s0"
    unfolding ep using wrapped_breaker_trial_in_flight [OF outer, of s0 c e ctx request e']
    by blast
  show ?thesis
    using start_closed through run opened rejected trial in_flight
      constructed_with_breaker [of lib svc client NewClient Parse NewClient' Marshal Decode]
      breaker_settings [of lib st]
    by blast
qed

text \<open>
  The Thrift client against a server that fails twice and then answers, with a breaker
  that opens at two failures: the two calls of the run are passed on and fail, the third
  call is rejected and the server is not asked, and the call after the timeout is
  passed on, succeeds and closes the breaker.
\<close>

lemmas breaker_run_defs = NewThriftClient_def MakeThriftPingEndpoint_def flaky_def
  trips_at_two_def two_calls_def arrive_def fresh_def broken_def limited_def Execute_def
  beforeRequest_def afterRequest_def currentState_def Allow_def refill_def NewLimiter_def
  full_bucket_def closed_breaker_def open_breaker_def half_open_breaker_def
  NewCircuitBreaker_def Let_def

lemma run_eval:
  "after_calls (PingEndpoint (NewThriftClient trips_at_two flaky)) two_calls (fresh 0 0) =
     \<lparr>now = 1, limiter = \<lparr>tokens = 99, lastRefill = 1\<rparr>,
      cb = open_breaker (NewCircuitBreaker trips_at_two \<lparr>Name = ''Ping'', Timeout = 10\<rparr>) 1,
      spans = [], logger = [], duration = [], world = 2\<rparr>"
  by (simp add: breaker_run_defs)

lemma outs_eval:
  "outcomes (PingEndpoint (NewThriftClient trips_at_two flaky)) two_calls (fresh 0 0) =
     [Return (None, Some ErrRandomFailure), Return (None, Some ErrRandomFailure)]"
  by (simp add: breaker_run_defs)

theorem circuit_breaker_three_states_witness:
  "PingEndpoint (NewThriftClient trips_at_two flaky) =
     wrap_all []
       (Wrap (Gobreaker (NewCircuitBreaker trips_at_two \<lparr>Name = ''Ping'', Timeout = 10\<rparr>))
          (Wrap (ErroringLimiter (NewLimiter 1 100)) (MakeThriftPingEndpoint flaky)))
   \<and> list_all transparent []
   \<and> length two_calls = readyToTrip (NewCircuitBreaker trips_at_two \<lparr>Name = ''Ping'', Timeout = 10\<rparr>)
   \<and> two_calls \<noteq> []
   \<and> state (cb (fresh 0 (0::nat))) = StateClosed
   \<and> ConsecutiveFailures (cb (fresh 0 (0::nat))) = 0
   \<and> list_all (\<lambda>out. \<not> succeeded out)
        (outcomes (PingEndpoint (NewThriftClient trips_at_two flaky)) two_calls (fresh 0 0))
   \<and> cb (after_calls (PingEndpoint (NewThriftClient trips_at_two flaky)) two_calls (fresh 0 0)) =
        open_breaker (NewCircuitBreaker trips_at_two \<lparr>Name = ''Ping'', Timeout = 10\<rparr>) 1
   \<and> world (after_calls (PingEndpoint (NewThriftClient trips_at_two flaky)) two_calls (fresh 0 0)) = 2
   \<and> fst (call (PingEndpoint (NewThriftClient trips_at_two flaky)) Background PingRequest
        ((after_calls (PingEndpoint (NewThriftClient trips_at_two flaky)) two_calls (fresh 0 0))
           \<lparr>now := 5\<rparr>)) = Return (None, Some ErrOpenState)
   \<and> world (snd (call (PingEndpoint (NewThriftClient trips_at_two flaky)) Background PingRequest
        ((after_calls (PingEndpoint (NewThriftClient trips_at_two flaky)) two_calls (fresh 0 0))
           \<lparr>now := 5\<rparr>))) = 2
   \<and> fst (call (PingEndpoint (NewThriftClient trips_at_two flaky)) Background PingRequest
        ((after_calls (PingEndpoint (NewThriftClient trips_at_two flaky)) two_calls (fresh 0 0))
           \<lparr>now := 11\<rparr>)) = Return (Some \<lparr>P = ''pong'', Err = None\<rparr>, None)
   \<and> world (snd (call (PingEndpoint (NewThriftClient trips_at_two flaky)) Background PingRequest
        ((after_calls (PingEndpoint (NewThriftClient trips_at_two flaky)) two_calls (fresh 0 0))
           \<lparr>now := 11\<rparr>))) = 3
   \<and> cb (snd (call (PingEndpoint (NewThriftClient trips_at_two flaky)) Background PingRequest
        ((after_calls (PingEndpoint (NewThriftClient trips_at_two flaky)) two_calls (fresh 0 0))
           \<lparr>now := 11\<rparr>))) = closed_breaker"
proof -
  let ?c = "NewCircuitBreaker trips_at_two \<lparr>Name = ''Ping'', Timeout = 10\<rparr>"
  let ?e = "Wrap (ErroringLimiter (NewLimiter 1 100)) (MakeThriftPingEndpoint flaky)"
  let ?ep = "PingEndpoint (NewThriftClient trips_at_two flaky)"
  let ?s = "fresh 0 (0::nat)"
  let ?s2 = "after_calls ?ep two_calls ?s"
  have ep: "?ep = wrap_all [] (Wrap (Gobreaker ?c) ?e)"
    by (simp add: NewThriftClient_def)
  have outer: "list_all transparent []" by simp
  have N: "length two_calls = readyToTrip ?c" "two_calls \<noteq> []"
    by (simp_all add: two_calls_def NewCircuitBreaker_def trips_at_two_def)
  have start: "state (cb ?s) = StateClosed" "ConsecutiveFailures (cb ?s) = 0"
    by (simp_all add: fresh_def closed_breaker_def)
  have fails: "list_all (\<lambda>out. \<not> succeeded out) (outcomes ?ep two_calls ?s)"
    by (simp add: outs_eval)
  note three = circuit_breaker_three_states [OF ep outer N start fails]
  have last_call: "fst (last two_calls) = 1"
    by (simp add: two_calls_def)
  have "cb ?s2 = open_breaker ?c (fst (last two_calls))"
    using three [of 0 "()" ?s Background PingRequest 0 ?e] by blast
  then have opened: "cb ?s2 = open_breaker ?c 1"
    by (simp only: last_call)
  have w2: "world ?s2 = 2"
    by (simp add: run_eval)
  have before: "now (?s2\<lparr>now := 5\<rparr>) < 1 + timeout ?c"
    and after: "1 + timeout ?c \<le> now (?s2\<lparr>now := 11\<rparr>)"
    by (simp_all add: NewCircuitBreaker_def)
  have cb5: "cb (?s2\<lparr>now := 5\<rparr>) = open_breaker ?c 1"
    and cb11: "cb (?s2\<lparr>now := 11\<rparr>) = open_breaker ?c 1"
    using opened by simp_all
  have "fst (call ?ep Background PingRequest (?s2\<lparr>now := 5\<rparr>)) =
        Return (None, Some ErrOpenState)
      \<and> world (snd (call ?ep Background PingRequest (?s2\<lparr>now := 5\<rparr>))) =
        world (?s2\<lparr>now := 5\<rparr>)"
    using three [of 0 "()" "?s2\<lparr>now := 5\<rparr>" Background PingRequest 1 ?e] cb5 before
    by blast
  then have early: "fst (call ?ep Background PingRequest (?s2\<lparr>now := 5\<rparr>)) =
        Return (None, Some ErrOpenState)
      \<and> world (snd (call ?ep Background PingRequest (?s2\<lparr>now := 5\<rparr>))) = 2"
    using w2 by simp
  have inner: "call ?e (inner_context [] Background) PingRequest (?s2\<lparr>now := 11\<rparr>) =
      (Return (Some \<lparr>P = ''pong'', Err = None\<rparr>, None),
       (?s2\<lparr>now := 11\<rparr>)\<lparr>limiter := \<lparr>tokens = 99, lastRefill = 11\<rparr>, world := 3\<rparr>)"
    by (simp add: run_eval)
       (simp add: MakeThriftPingEndpoint_def flaky_def limited_def Allow_def refill_def
          NewLimiter_def Let_def)
  have "fst (call ?ep Background PingRequest (?s2\<lparr>now := 11\<rparr>)) =
        fst (call ?e (inner_context [] Background) PingRequest (?s2\<lparr>now := 11\<rparr>))
      \<and> world (snd (call ?ep Background PingRequest (?s2\<lparr>now := 11\<rparr>))) =
        world (snd (call ?e (inner_context [] Background) PingRequest (?s2\<lparr>now := 11\<rparr>)))
      \<and> cb (snd (call ?ep Background PingRequest (?s2\<lparr>now := 11\<rparr>))) =
        (if succeeded (fst (call ?ep Background PingRequest (?s2\<lparr>now := 11\<rparr>)))
         then closed_breaker else open_breaker ?c (now (?s2\<lparr>now := 11\<rparr>)))"
    using three [of 0 "()" "?s2\<lparr>now := 11\<rparr>" Background PingRequest 1 ?e] cb11 after
    by blast
  then have late: "fst (call ?ep Background PingRequest (?s2\<lparr>now := 11\<rparr>)) =
        Return (Some \<lparr>P = ''pong'', Err = None\<rparr>, None)
      \<and> world (snd (call ?ep Background PingRequest (?s2\<lparr>now := 11\<rparr>))) = 3
      \<and> cb (snd (call ?ep Background PingRequest (?s2\<lparr>now := 11\<rparr>))) = closed_breaker"
    unfolding inner by simp
  show ?thesis
    using ep outer N start fails opened w2 early late by blast
qed

text \<open>
  On the server the breaker wraps the limited base endpoint, whose error is nil whatever
  the service returns: a failed ping counts as a success of the wrapped endpoint, and
  the failures the breaker counts are the limiter's rejections.
\<close>

lemma server_breaker_counts_no_domain_failure:
  "0 < tokens (limiter s) \<Longrightarrow> state (cb s) = StateClosed \<Longrightarrow>
   cb (snd (call (PingEndpoint (New lib svc)) ctx PingRequest s)) =
     (cb s)\<lparr>ConsecutiveFailures := 0\<rparr>"
  by (auto simp add: New_def MakePingEndpoint_def instrumented_def logged_def traced_def
      broken_def limited_def Execute_def beforeRequest_def afterRequest_def currentState_def
      Allow_def refill_def NewLimiter_def Let_def split: prod.splits)

lemma server_breaker_opens_on_rejections:
  "outcomes (PingEndpoint (New trips_at_two svc))
     [(0, Background, PingRequest), (0, Background, PingRequest)]
     ((fresh 0 w)\<lparr>limiter := \<lparr>tokens = 0, lastRefill = 0\<rparr>\<rparr>) =
     [Return (None, Some ErrLimited), Return (None, Some ErrLimited)]
   \<and> cb (after_calls (PingEndpoint (New trips_at_two svc))
           [(0, Background, PingRequest), (0, Background, PingRequest)]
           ((fresh 0 w)\<lparr>limiter := \<lparr>tokens = 0, lastRefill = 0\<rparr>\<rparr>)) =
       open_breaker (NewCircuitBreaker trips_at_two \<lparr>Name = [], Timeout = 0\<rparr>) 0
   \<and> world (after_calls (PingEndpoint (New trips_at_two svc))
           [(0, Background, PingRequest), (0, Background, PingRequest)]
           ((fresh 0 w)\<lparr>limiter := \<lparr>tokens = 0, lastRefill = 0\<rparr>\<rparr>)) = w"
  by (simp add: New_def MakePingEndpoint_def instrumented_def logged_def traced_def
      breaker_run_defs)

end
